theory Spec2Isabelle
  imports Complex_Main "HOL-Library.Sublist"
begin

section \<open>JavaScript values\<close>

text \<open>
  The repository holds the handler of the edge function \<^verbatim>\<open>generate-image\<close> in two texts:
  \<^verbatim>\<open>supabase/functions/generate-image/index.ts\<close>, and a longer one that reads the image
  from the provider's response along four paths, which is the one the specification
  describes. The two agree line for line up to line 73 and in the \<^verbatim>\<open>catch\<close> block. The
  model follows the longer text, and line numbers are its line numbers; the lines in which
  \<^verbatim>\<open>index.ts\<close> differs are modelled in a subsection of their own.

  The handler reads two JSON documents: the body of the request it serves and the body of
  the provider's response. Both are values of \<open>jsval\<close>: what \<^verbatim>\<open>JSON.parse\<close> produces, plus
  \<^verbatim>\<open>undefined\<close>, which reading a missing property yields. An object is an association list
  read with \<open>map_of\<close> (the parser has already resolved duplicate keys). Strings are
  \<open>char list\<close>. A number is its numeric value; the only falsy number a parsed document
  can hold is zero.
\<close>

datatype jsval =
    JUndefined
  | JNull
  | JBool bool
  | JNum rat
  | JStr string
  | JArr "jsval list"
  | JObj "(string \<times> jsval) list"

text \<open>
  Thrown values. \<open>Error\<close> is \<^verbatim>\<open>new Error(msg)\<close> of the source; \<open>TypeError\<close> and
  \<open>SyntaxError\<close> are raised by the runtime (a property read on \<^verbatim>\<open>null\<close>, a body that is
  not JSON, a failed connection) and carry the runtime's message; \<open>NonError\<close> is a thrown
  value that is not an instance of \<^verbatim>\<open>Error\<close>.
\<close>

datatype exn = Error string | TypeError string | SyntaxError string | NonError

fun instanceof_Error :: "exn \<Rightarrow> bool" where
  "instanceof_Error NonError = False"
| "instanceof_Error _ = True"

fun message :: "exn \<Rightarrow> string" where
  "message (Error m) = m"
| "message (TypeError m) = m"
| "message (SyntaxError m) = m"
| "message NonError = []"

text \<open>\<^verbatim>\<open>!!v\<close>: the values that count as true in a condition.\<close>

fun truthy :: "jsval \<Rightarrow> bool" where
  "truthy JUndefined = False"
| "truthy JNull = False"
| "truthy (JBool b) = b"
| "truthy (JNum n) = (n \<noteq> 0)"
| "truthy (JStr s) = (s \<noteq> [])"
| "truthy (JArr _) = True"
| "truthy (JObj _) = True"

fun typeof :: "jsval \<Rightarrow> string" where
  "typeof JUndefined = ''undefined''"
| "typeof JNull = ''object''"
| "typeof (JBool _) = ''boolean''"
| "typeof (JNum _) = ''number''"
| "typeof (JStr _) = ''string''"
| "typeof (JArr _) = ''object''"
| "typeof (JObj _) = ''object''"

fun isArray :: "jsval \<Rightarrow> bool" where
  "isArray (JArr _) = True"
| "isArray _ = False"

subsection \<open>Decimal text of a number (template literals)\<close>

definition digit_of :: "nat \<Rightarrow> char" where
  "digit_of d = ''0123456789'' ! d"

function string_of_nat :: "nat \<Rightarrow> string" where
  "string_of_nat n =
     (if n < 10 then [digit_of n] else string_of_nat (n div 10) @ [digit_of (n mod 10)])"
  by pat_completeness auto
termination
  by (relation "measure id") auto

declare string_of_nat.simps [simp del]

subsection \<open>Property reads\<close>

text \<open>
  A property key is a name (\<^verbatim>\<open>.message\<close>) or an index (\<^verbatim>\<open>[0]\<close>). The names the handler
  reads are \<^verbatim>\<open>prompt\<close>, \<^verbatim>\<open>editImageBase64\<close>, \<^verbatim>\<open>choices\<close>, \<^verbatim>\<open>message\<close>, \<^verbatim>\<open>images\<close>,
  \<^verbatim>\<open>image_url\<close>, \<^verbatim>\<open>url\<close>, \<^verbatim>\<open>content\<close> and \<^verbatim>\<open>type\<close>: none of them is a built-in property
  of objects, strings, arrays, numbers or booleans, so reading one of them from a value
  that is not an object with that key gives \<^verbatim>\<open>undefined\<close>. An index reads an array element, a one-character string of a string, or
  the property of that decimal name of an object.
\<close>

datatype key = Name string | Idx nat

fun key_name :: "key \<Rightarrow> string" where
  "key_name (Name f) = f"
| "key_name (Idx i) = string_of_nat i"

fun get :: "jsval \<Rightarrow> key \<Rightarrow> jsval" where
  "get (JObj kvs) k = (case map_of kvs (key_name k) of None \<Rightarrow> JUndefined | Some v \<Rightarrow> v)"
| "get (JArr xs) (Idx i) = (if i < length xs then xs ! i else JUndefined)"
| "get (JStr s) (Idx i) = (if i < length s then JStr [s ! i] else JUndefined)"
| "get _ _ = JUndefined"

definition nullish :: "jsval \<Rightarrow> bool" where
  "nullish v = (v = JUndefined \<or> v = JNull)"

text \<open>
  \<^verbatim>\<open>v.k\<close> raises a TypeError on \<^verbatim>\<open>null\<close> and \<^verbatim>\<open>undefined\<close> (the message is V8's);
  \<^verbatim>\<open>v?.k\<close> gives \<^verbatim>\<open>undefined\<close> there.
\<close>

definition cannot_read :: "jsval \<Rightarrow> key \<Rightarrow> string" where
  "cannot_read v k =
     ''Cannot read properties of '' @ (if v = JNull then ''null'' else ''undefined'')
       @ '' (reading '' @ [CHR 0x27] @ key_name k @ [CHR 0x27] @ '')''"

definition member :: "jsval \<Rightarrow> key \<Rightarrow> exn + jsval" where
  "member v k = (if nullish v then Inl (TypeError (cannot_read v k)) else Inr (get v k))"

definition opt_member :: "jsval \<Rightarrow> key \<Rightarrow> jsval" where
  "opt_member v k = (if nullish v then JUndefined else get v k)"

fun strict_chain :: "jsval \<Rightarrow> key list \<Rightarrow> exn + jsval" where
  "strict_chain v [] = Inr v"
| "strict_chain v (k # ks) =
     (case member v k of Inl e \<Rightarrow> Inl e | Inr w \<Rightarrow> strict_chain w ks)"

fun opt_chain :: "jsval \<Rightarrow> key list \<Rightarrow> jsval" where
  "opt_chain v [] = v"
| "opt_chain v (k # ks) = opt_chain (opt_member v k) ks"

text \<open>
  \<^verbatim>\<open>data.choices?.[0]?.message?.k1?. ... ?.kn\<close>: the first read is not optional, every
  later one is.
\<close>

definition message_path :: "jsval \<Rightarrow> key list \<Rightarrow> exn + jsval" where
  "message_path data ks =
     (case member data (Name ''choices'') of
        Inl e \<Rightarrow> Inl e
      | Inr choices \<Rightarrow> Inr (opt_chain choices ([Idx 0, Name ''message''] @ ks)))"

section \<open>The regular expression of path 4\<close>

text \<open>
  \<^verbatim>\<open>/data:image\/[^;]+;base64,[A-Za-z0-9+/=]+/\<close> is a sequence of literals and of greedy
  one-or-more repetitions of a character class. \<open>match_here\<close> is the backtracking matcher
  at one position: a repetition first takes the longest run and gives characters back one
  at a time. \<open>string_match\<close> is \<^verbatim>\<open>String.prototype.match\<close> for a pattern without flags:
  the match at the leftmost position that has one, \<^verbatim>\<open>null\<close> (here \<open>None\<close>) when none has.
\<close>

datatype atom = Lit string | Plus "char \<Rightarrow> bool"

fun first_from :: "(nat \<Rightarrow> 'a option) \<Rightarrow> nat \<Rightarrow> 'a option" where
  "first_from f 0 = None"
| "first_from f (Suc n) = (case f (Suc n) of Some r \<Rightarrow> Some r | None \<Rightarrow> first_from f n)"

fun match_here :: "atom list \<Rightarrow> string \<Rightarrow> string option" where
  "match_here [] s = Some []"
| "match_here (Lit l # r) s =
     (if prefix l s then map_option (\<lambda>m. l @ m) (match_here r (drop (length l) s)) else None)"
| "match_here (Plus p # r) s =
     first_from (\<lambda>n. map_option (\<lambda>m. take n s @ m) (match_here r (drop n s)))
       (length (takeWhile p s))"

fun string_match :: "atom list \<Rightarrow> string \<Rightarrow> string option" where
  "string_match re [] = match_here re []"
| "string_match re (c # s) =
     (case match_here re (c # s) of Some m \<Rightarrow> Some m | None \<Rightarrow> string_match re s)"

definition not_semicolon :: "char \<Rightarrow> bool" where
  "not_semicolon c = (c \<noteq> CHR '';'')"

definition base64_char :: "char \<Rightarrow> bool" where
  "base64_char c =
     (c \<in> set (''ABCDEFGHIJKLMNOPQRSTUVWXYZ'' @ ''abcdefghijklmnopqrstuvwxyz''
               @ ''0123456789'' @ ''+/=''))"

definition data_uri_regex :: "atom list" where
  "data_uri_regex =
     [Lit ''data:image/'', Plus not_semicolon, Lit '';base64,'', Plus base64_char]"

section \<open>Requests, responses and effects\<close>

text \<open>
  \<open>req_json\<close> is the outcome of \<^verbatim>\<open>await req.json()\<close>; \<open>body_json\<close> and \<open>body_text\<close> those
  of \<^verbatim>\<open>response.json()\<close> and \<^verbatim>\<open>response.text()\<close> on the provider's response. A body
  handed to \<^verbatim>\<open>JSON.stringify\<close> is kept as the value it serialises.
\<close>

record request =
  req_method :: string
  req_json :: "exn + jsval"

record fetch_call =
  url :: string
  http_method :: string
  request_headers :: "(string \<times> string) list"
  request_body :: jsval

record upstream_response =
  status :: nat
  body_text :: string
  body_json :: "exn + jsval"

record reply =
  reply_status :: nat
  reply_headers :: "(string \<times> string) list"
  reply_body :: "jsval option"

text \<open>What a console line prints, kept symbolic.\<close>

datatype log_arg =
    LStr string
  | LVal jsval
  | LNum nat
  | LStringify jsval
  | LKeys jsval
  | LExn exn

datatype event =
    Fetched fetch_call
  | ConsoleLog "log_arg list"
  | ConsoleError "log_arg list"

text \<open>
  A computation emits events and then either throws or returns: \<open>throw\<close>, \<open>ret\<close>,
  \<open>emit\<close>, \<open>await\<close> (a result that may be an exception) and sequencing \<open>andThen\<close>,
  which keeps the events emitted before a throw.
\<close>

type_synonym 'a comp = "event list \<times> (exn + 'a)"

definition ret :: "'a \<Rightarrow> 'a comp" where
  "ret v = ([], Inr v)"

definition throw :: "exn \<Rightarrow> 'a comp" where
  "throw e = ([], Inl e)"

definition emit :: "event \<Rightarrow> unit comp" where
  "emit ev = ([ev], Inr ())"

definition await :: "exn + 'a \<Rightarrow> 'a comp" where
  "await r = ([], r)"

definition andThen :: "'a comp \<Rightarrow> ('a \<Rightarrow> 'b comp) \<Rightarrow> 'b comp" where
  "andThen m f =
     (case m of
        (tr, Inl e) \<Rightarrow> (tr, Inl e)
      | (tr, Inr v) \<Rightarrow> (case f v of (tr', r) \<Rightarrow> (tr @ tr', r)))"

definition response_ok :: "upstream_response \<Rightarrow> bool" where
  "response_ok response = (200 \<le> status response \<and> status response \<le> 299)"

section \<open>The handler\<close>

definition corsHeaders :: "(string \<times> string) list" where
  "corsHeaders =
     [(''Access-Control-Allow-Origin'', ''*''),
      (''Access-Control-Allow-Headers'', ''authorization, x-client-info, apikey, content-type'')]"

definition json_headers :: "(string \<times> string) list" where
  "json_headers = corsHeaders @ [(''Content-Type'', ''application/json'')]"

text \<open>\<^verbatim>\<open>const { prompt, editImageBase64 } = await req.json()\<close>\<close>

definition cannot_destructure :: "jsval \<Rightarrow> string" where
  "cannot_destructure v =
     ''Cannot destructure property '' @ [CHR 0x27] @ ''prompt'' @ [CHR 0x27]
       @ '' of '' @ [CHR 0x27] @ ''(intermediate value)'' @ [CHR 0x27] @ '' as it is ''
       @ (if v = JNull then ''null'' else ''undefined'') @ ''.''"

definition destructure :: "jsval \<Rightarrow> exn + (jsval \<times> jsval)" where
  "destructure b =
     (if nullish b then Inl (TypeError (cannot_destructure b))
      else Inr (get b (Name ''prompt''), get b (Name ''editImageBase64'')))"

text \<open>Lines 28 to 41: the chat messages.\<close>

definition messages :: "jsval \<Rightarrow> jsval \<Rightarrow> jsval" where
  "messages prompt editImageBase64 =
     (if truthy editImageBase64
      then JArr [JObj [(''role'', JStr ''user''),
                       (''content'',
                        JArr [JObj [(''type'', JStr ''text''), (''text'', prompt)],
                              JObj [(''type'', JStr ''image_url''),
                                    (''image_url'', JObj [(''url'', editImageBase64)])]])]]
      else JArr [JObj [(''role'', JStr ''user''), (''content'', prompt)]])"

text \<open>Lines 43 to 54: the one outbound call.\<close>

definition gateway_call :: "string \<Rightarrow> jsval \<Rightarrow> fetch_call" where
  "gateway_call LOVABLE_API_KEY msgs =
     \<lparr> url = ''https://ai.gateway.lovable.dev/v1/chat/completions'',
       http_method = ''POST'',
       request_headers = [(''Authorization'', ''Bearer '' @ LOVABLE_API_KEY),
                          (''Content-Type'', ''application/json'')],
       request_body = JObj [(''model'', JStr ''google/gemini-2.5-flash-image-preview''),
                            (''messages'', msgs),
                            (''modalities'', JArr [JStr ''image'', JStr ''text''])] \<rparr>"

subsection \<open>Lines 77 to 114: the four paths\<close>

text \<open>
  Each path takes the current \<^verbatim>\<open>imageUrl\<close> and returns the new one. The condition is read
  with optional chaining, the assignment reads the same place again without it.
\<close>

definition found_via :: "string \<Rightarrow> unit comp" where
  "found_via what = emit (ConsoleLog [LStr (''Found image via '' @ what)])"

definition path1 :: "jsval \<Rightarrow> jsval \<Rightarrow> jsval comp" where
  "path1 data imageUrl =
     andThen (await (message_path data [Name ''images'', Idx 0, Name ''image_url'', Name ''url'']))
       (\<lambda>c. if truthy c
            then andThen (await (strict_chain data
                            [Name ''choices'', Idx 0, Name ''message'', Name ''images'', Idx 0,
                             Name ''image_url'', Name ''url'']))
                   (\<lambda>v. andThen (found_via ''path 1 (images array)'') (\<lambda>_. ret v))
            else ret imageUrl)"

definition path2 :: "jsval \<Rightarrow> jsval \<Rightarrow> jsval comp" where
  "path2 data imageUrl =
     (if truthy imageUrl then ret imageUrl
      else andThen (await (message_path data [Name ''image_url'', Name ''url'']))
             (\<lambda>c. if truthy c
                  then andThen (await (strict_chain data
                                  [Name ''choices'', Idx 0, Name ''message'',
                                   Name ''image_url'', Name ''url'']))
                         (\<lambda>v. andThen (found_via ''path 2 (direct image_url)'') (\<lambda>_. ret v))
                  else ret imageUrl))"

text \<open>
  \<^verbatim>\<open>content.find((c) => c.type === "image_url" || c.type === "image")\<close>: the first entry
  so tagged, \<^verbatim>\<open>undefined\<close> when there is none. The callback reads \<^verbatim>\<open>c.type\<close> without
  optional chaining.
\<close>

fun find_image :: "jsval list \<Rightarrow> exn + jsval" where
  "find_image [] = Inr JUndefined"
| "find_image (c # cs) =
     (case member c (Name ''type'') of
        Inl e \<Rightarrow> Inl e
      | Inr t \<Rightarrow> if t = JStr ''image_url'' \<or> t = JStr ''image'' then Inr c else find_image cs)"

definition elements :: "jsval \<Rightarrow> jsval list" where
  "elements v = (case v of JArr xs \<Rightarrow> xs | _ \<Rightarrow> [])"

definition path3 :: "jsval \<Rightarrow> jsval \<Rightarrow> jsval comp" where
  "path3 data imageUrl =
     (if truthy imageUrl then ret imageUrl
      else andThen (await (message_path data [Name ''content'']))
             (\<lambda>c. if isArray c
                  then andThen (await (strict_chain data
                                  [Name ''choices'', Idx 0, Name ''message'', Name ''content'']))
                    (\<lambda>content. andThen (await (find_image (elements content)))
                      (\<lambda>imageContent.
                         if truthy (opt_chain imageContent [Name ''image_url'', Name ''url''])
                         then andThen (await (strict_chain imageContent
                                                [Name ''image_url'', Name ''url'']))
                                (\<lambda>v. andThen (found_via ''path 3 (content array)'') (\<lambda>_. ret v))
                         else if truthy (opt_chain imageContent [Name ''url''])
                         then andThen (await (strict_chain imageContent [Name ''url'']))
                                (\<lambda>v. andThen (found_via ''path 3b (content array direct url)'')
                                       (\<lambda>_. ret v))
                         else ret imageUrl))
                  else ret imageUrl))"

definition string_of :: "jsval \<Rightarrow> string" where
  "string_of v = (case v of JStr s \<Rightarrow> s | _ \<Rightarrow> [])"

definition path4 :: "jsval \<Rightarrow> jsval \<Rightarrow> jsval comp" where
  "path4 data imageUrl =
     (if truthy imageUrl then ret imageUrl
      else andThen (await (message_path data [Name ''content'']))
             (\<lambda>c. if typeof c = ''string''
                  then andThen (await (strict_chain data
                                  [Name ''choices'', Idx 0, Name ''message'', Name ''content'']))
                    (\<lambda>content.
                       case string_match data_uri_regex (string_of content) of
                         Some base64Match \<Rightarrow>
                           andThen (found_via ''path 4 (base64 in content)'')
                             (\<lambda>_. ret (JStr base64Match))
                       | None \<Rightarrow> ret imageUrl)
                  else ret imageUrl))"

definition extract_imageUrl :: "jsval \<Rightarrow> jsval comp" where
  "extract_imageUrl data =
     andThen (path1 data JNull)
       (\<lambda>u1. andThen (path2 data u1)
         (\<lambda>u2. andThen (path3 data u2)
           (\<lambda>u3. path4 data u3)))"

text \<open>Lines 116 to 118.\<close>

definition textContent :: "jsval \<Rightarrow> exn + jsval" where
  "textContent data =
     (case message_path data [Name ''content''] of
        Inl e \<Rightarrow> Inl e
      | Inr c \<Rightarrow>
          if typeof c = ''string''
          then strict_chain data [Name ''choices'', Idx 0, Name ''message'', Name ''content'']
          else Inr (JStr []))"

subsection \<open>The replies\<close>

definition preflight :: reply where
  "preflight = \<lparr> reply_status = 200, reply_headers = corsHeaders, reply_body = None \<rparr>"

definition rate_limited :: reply where
  "rate_limited =
     \<lparr> reply_status = 429, reply_headers = json_headers,
       reply_body = Some (JObj [(''error'', JStr ''Rate limit exceeded. Please try again later.'')]) \<rparr>"

definition payment_required :: reply where
  "payment_required =
     \<lparr> reply_status = 402, reply_headers = json_headers,
       reply_body =
         Some (JObj [(''error'', JStr ''Payment required. Please add credits to your workspace.'')]) \<rparr>"

definition success :: "jsval \<Rightarrow> jsval \<Rightarrow> reply" where
  "success imageUrl text =
     \<lparr> reply_status = 200, reply_headers = json_headers,
       reply_body = Some (JObj [(''imageUrl'', imageUrl), (''textContent'', text),
                                (''success'', JBool True)]) \<rparr>"

definition failure :: "exn \<Rightarrow> reply" where
  "failure error =
     \<lparr> reply_status = 500, reply_headers = json_headers,
       reply_body =
         Some (JObj [(''error'', JStr (if instanceof_Error error then message error
                                       else ''Unknown error occurred'')),
                     (''success'', JBool False)]) \<rparr>"

subsection \<open>The messages of the errors the handler throws itself\<close>

definition not_configured :: string where
  "not_configured = ''LOVABLE_API_KEY is not configured''"

definition prompt_required :: string where
  "prompt_required = ''Prompt is required and must be a string''"

definition gateway_error :: "nat \<Rightarrow> string" where
  "gateway_error st = ''AI gateway error: '' @ string_of_nat st"

definition no_image :: string where
  "no_image = ''No image was generated. The AI model might be experiencing issues.''"

subsection \<open>Lines 74 to 136: a response with a success status\<close>

definition no_image_diagnostics :: "jsval \<Rightarrow> event list" where
  "no_image_diagnostics data =
     (let choice = opt_chain (get data (Name ''choices'')) [Idx 0];
          msg = opt_chain choice [Name ''message'']
      in [ConsoleError [LStr ''No image found in response. Response structure:'', LKeys data],
          ConsoleError [LStr ''Choices structure:'',
                        if truthy choice then LKeys choice else LStr ''no choices''],
          ConsoleError [LStr ''Message structure:'',
                        if truthy msg then LKeys msg else LStr ''no message'']])"

definition on_success :: "upstream_response \<Rightarrow> reply comp" where
  "on_success response =
     andThen (await (body_json response))
       (\<lambda>data. andThen (emit (ConsoleLog [LStr ''Full AI response:'', LStringify data]))
         (\<lambda>_. andThen (extract_imageUrl data)
           (\<lambda>imageUrl. andThen (await (textContent data))
             (\<lambda>text.
                if \<not> truthy imageUrl
                then (no_image_diagnostics data, Inl (Error no_image))
                else andThen (emit (ConsoleLog [LStr ''Successfully extracted image URL'']))
                       (\<lambda>_. ret (success imageUrl text))))))"

subsection \<open>Lines 56 to 72: a response without one\<close>

definition on_failure :: "upstream_response \<Rightarrow> reply comp" where
  "on_failure response =
     (if status response = 429 then ret rate_limited
      else if status response = 402 then ret payment_required
      else andThen (emit (ConsoleError [LStr ''AI gateway error:'', LNum (status response),
                                        LStr (body_text response)]))
             (\<lambda>_. throw (Error (gateway_error (status response)))))"

subsection \<open>Lines 13 to 136: the body of \<^verbatim>\<open>try\<close>\<close>

text \<open>
  \<open>LOVABLE_API_KEY\<close> is \<^verbatim>\<open>Deno.env.get("LOVABLE_API_KEY")\<close>: \<open>None\<close> when the variable is
  not set; \<^verbatim>\<open>!LOVABLE_API_KEY\<close> also holds of the empty string. \<open>fetch\<close> is the provider: what the call returns, or the exception of a failed
  connection.
\<close>

definition try_block ::
  "string option \<Rightarrow> (fetch_call \<Rightarrow> exn + upstream_response) \<Rightarrow> request \<Rightarrow> reply comp" where
  "try_block LOVABLE_API_KEY fetch req =
     andThen (await (req_json req))
       (\<lambda>b. andThen (await (destructure b))
         (\<lambda>(prompt, editImageBase64).
            case LOVABLE_API_KEY of
              None \<Rightarrow> throw (Error not_configured)
            | Some k \<Rightarrow>
                if k = [] then throw (Error not_configured)
                else if \<not> truthy prompt \<or> typeof prompt \<noteq> ''string''
                then throw (Error prompt_required)
                else
                  andThen (emit (ConsoleLog [LStr ''Generating image with prompt:'', LVal prompt]))
                    (\<lambda>_. andThen (emit (ConsoleLog [LStr ''Edit mode:'',
                                                    LVal (JBool (truthy editImageBase64))]))
                      (\<lambda>_. let call = gateway_call k (messages prompt editImageBase64)
                           in andThen (emit (Fetched call))
                                (\<lambda>_. andThen (await (fetch call))
                                  (\<lambda>response. if \<not> response_ok response
                                              then on_failure response
                                              else on_success response))))))"

subsection \<open>Lines 8 to 147\<close>

definition serve ::
  "string option \<Rightarrow> (fetch_call \<Rightarrow> exn + upstream_response) \<Rightarrow> request \<Rightarrow> event list \<times> reply" where
  "serve LOVABLE_API_KEY fetch req =
     (if req_method req = ''OPTIONS'' then ([], preflight)
      else case try_block LOVABLE_API_KEY fetch req of
             (tr, Inr r) \<Rightarrow> (tr, r)
           | (tr, Inl error) \<Rightarrow>
               (tr @ [ConsoleError [LStr ''Error in generate-image function:'', LExn error]],
                failure error))"

subsection \<open>Lines 74 to 91 of index.ts\<close>

text \<open>
  In \<^verbatim>\<open>index.ts\<close> the handling of a response with a success status reads the images list
  only and takes \<^verbatim>\<open>content || ""\<close> as the text.
\<close>

definition on_success_index :: "upstream_response \<Rightarrow> reply comp" where
  "on_success_index response =
     andThen (await (body_json response))
       (\<lambda>data. andThen (emit (ConsoleLog [LStr ''AI response received'']))
         (\<lambda>_. andThen (await (message_path data
                                 [Name ''images'', Idx 0, Name ''image_url'', Name ''url'']))
           (\<lambda>imageUrl. andThen (await (message_path data [Name ''content'']))
             (\<lambda>content.
                if \<not> truthy imageUrl then throw (Error ''No image was generated'')
                else ret (success imageUrl (if truthy content then content else JStr []))))))"

section \<open>What the specification talks about\<close>

text \<open>
  The events of a run that are outbound calls.
\<close>

fun sent :: "event list \<Rightarrow> fetch_call list" where
  "sent [] = []"
| "sent (Fetched c # tr) = c # sent tr"
| "sent (_ # tr) = sent tr"

text \<open>
  What each of the four paths computes from the parsed body, as a function of its own: (1)
  the nested image list of the first choice's message, (2) the direct image reference of
  the message, (3) the content list, read with the handler's \<open>find_image\<close>, (4) the
  content string, matched against the pattern of line 109. A strategy gives a value,
  possibly an empty one, or raises.
\<close>

definition strategy1 :: "jsval \<Rightarrow> exn + jsval" where
  "strategy1 data = message_path data [Name ''images'', Idx 0, Name ''image_url'', Name ''url'']"

definition strategy2 :: "jsval \<Rightarrow> exn + jsval" where
  "strategy2 data = message_path data [Name ''image_url'', Name ''url'']"

definition strategy3 :: "jsval \<Rightarrow> exn + jsval" where
  "strategy3 data =
     (case message_path data [Name ''content''] of
        Inl e \<Rightarrow> Inl e
      | Inr (JArr entries) \<Rightarrow>
          (case find_image entries of
             Inl e \<Rightarrow> Inl e
           | Inr entry \<Rightarrow>
               Inr (if truthy (opt_chain entry [Name ''image_url'', Name ''url''])
                    then opt_chain entry [Name ''image_url'', Name ''url'']
                    else if truthy (opt_chain entry [Name ''url''])
                    then opt_chain entry [Name ''url'']
                    else JUndefined))
      | Inr _ \<Rightarrow> Inr JUndefined)"

definition strategy4 :: "jsval \<Rightarrow> exn + jsval" where
  "strategy4 data =
     (case message_path data [Name ''content''] of
        Inl e \<Rightarrow> Inl e
      | Inr (JStr s) \<Rightarrow>
          Inr (case string_match data_uri_regex s of Some m \<Rightarrow> JStr m | None \<Rightarrow> JUndefined)
      | Inr _ \<Rightarrow> Inr JUndefined)"

text \<open>
  "Attempts, in order, until one yields a non-empty reference": the first value that counts
  as true. An exception on the way ends the attempt; when every strategy has given an empty
  value the reference is still \<^verbatim>\<open>null\<close>.
\<close>

fun first_nonempty :: "(exn + jsval) list \<Rightarrow> exn + jsval" where
  "first_nonempty [] = Inr JNull"
| "first_nonempty (Inl e # rs) = Inl e"
| "first_nonempty (Inr v # rs) = (if truthy v then Inr v else first_nonempty rs)"

text \<open>
  A strategy yields when it gives a non-empty value; it finds nothing when it completes
  with an empty one.
\<close>

definition yields :: "exn + jsval \<Rightarrow> bool" where
  "yields r = (case r of Inl _ \<Rightarrow> False | Inr v \<Rightarrow> truthy v)"

definition finds_nothing :: "exn + jsval \<Rightarrow> bool" where
  "finds_nothing r = (case r of Inl _ \<Rightarrow> False | Inr v \<Rightarrow> \<not> truthy v)"

text \<open>
  The content of the first choice's message of a body that is neither \<^verbatim>\<open>null\<close> nor
  \<^verbatim>\<open>undefined\<close>, and the text that goes with it: the content when it is a string, the
  empty string otherwise.
\<close>

definition content_of :: "jsval \<Rightarrow> jsval" where
  "content_of data = opt_chain (get data (Name ''choices'')) [Idx 0, Name ''message'', Name ''content'']"

definition plain_text :: "jsval \<Rightarrow> jsval" where
  "plain_text data = (case content_of data of JStr s \<Rightarrow> JStr s | _ \<Rightarrow> JStr [])"

text \<open>
  The content-list scan in the words of section 4.1 of the specification, "scanning entries
  for one tagged as an image and reading its reference (supporting two possible
  sub-shapes)": an entry is tagged as an image when its \<^verbatim>\<open>type\<close> is \<^verbatim>\<open>image_url\<close> or
  \<^verbatim>\<open>image\<close> (an entry that is not an object has no tag); the reference of an entry is its
  \<^verbatim>\<open>image_url.url\<close>, or else its \<^verbatim>\<open>url\<close>; the scan reads the first tagged entry. It is
  written without \<open>find_image\<close>. \<open>no_null_entry\<close> holds of a body whose content list,
  if it has one, holds neither \<^verbatim>\<open>null\<close> nor \<^verbatim>\<open>undefined\<close>.
\<close>

definition tagged_as_image :: "jsval \<Rightarrow> bool" where
  "tagged_as_image entry =
     (get entry (Name ''type'') = JStr ''image_url'' \<or> get entry (Name ''type'') = JStr ''image'')"

definition image_reference :: "jsval \<Rightarrow> jsval" where
  "image_reference entry =
     (if truthy (get (get entry (Name ''image_url'')) (Name ''url''))
      then get (get entry (Name ''image_url'')) (Name ''url'')
      else if truthy (get entry (Name ''url'')) then get entry (Name ''url'')
      else JUndefined)"

definition scan_content_list :: "jsval list \<Rightarrow> jsval" where
  "scan_content_list entries =
     (case filter tagged_as_image entries of
        [] \<Rightarrow> JUndefined
      | entry # _ \<Rightarrow> image_reference entry)"

definition content_list_scan :: "jsval \<Rightarrow> jsval" where
  "content_list_scan data =
     (case content_of data of JArr entries \<Rightarrow> scan_content_list entries | _ \<Rightarrow> JUndefined)"

definition no_null_entry :: "jsval \<Rightarrow> bool" where
  "no_null_entry data =
     (case content_of data of JArr entries \<Rightarrow> list_all (\<lambda>c. \<not> nullish c) entries | _ \<Rightarrow> True)"

text \<open>
  What the strategies and the check of line 120 make of a parsed body.
\<close>

definition outcome :: "jsval \<Rightarrow> exn + reply" where
  "outcome data =
     (case first_nonempty [strategy1 data, strategy2 data, strategy3 data, strategy4 data] of
        Inl e \<Rightarrow> Inl e
      | Inr v \<Rightarrow> if truthy v then Inr (success v (plain_text data)) else Inl (Error no_image))"

text \<open>
  \<open>answered k fetch req response\<close>: the credential \<open>k\<close> is configured, \<open>req\<close> is not a
  preflight, its body holds a non-empty string prompt, and the provider answers the call
  built from it with \<open>response\<close>.
\<close>

definition answered ::
  "string \<Rightarrow> (fetch_call \<Rightarrow> exn + upstream_response) \<Rightarrow> request \<Rightarrow> upstream_response \<Rightarrow> bool" where
  "answered k fetch req response =
     (k \<noteq> [] \<and> req_method req \<noteq> ''OPTIONS'' \<and>
      (case req_json req of
         Inl _ \<Rightarrow> False
       | Inr b \<Rightarrow>
           (case get b (Name ''prompt'') of
              JStr p \<Rightarrow>
                p \<noteq> [] \<and>
                fetch (gateway_call k (messages (JStr p) (get b (Name ''editImageBase64''))))
                  = Inr response
            | _ \<Rightarrow> False)))"

section \<open>Concrete requests and responses\<close>

text \<open>
  A provider that gives the same response to every call.
\<close>

definition always :: "upstream_response \<Rightarrow> fetch_call \<Rightarrow> exn + upstream_response" where
  "always response call = Inr response"

definition red_circle :: request where
  "red_circle = \<lparr> req_method = ''POST'', req_json = Inr (JObj [(''prompt'', JStr ''a red circle'')]) \<rparr>"

definition edit_request :: request where
  "edit_request = \<lparr> req_method = ''POST'',
      req_json = Inr (JObj [(''prompt'', JStr ''make it blue''),
                            (''editImageBase64'', JStr ''data:image/png;base64,iVBORw0KGgo='')]) \<rparr>"

definition numeric_prompt :: request where
  "numeric_prompt = \<lparr> req_method = ''POST'', req_json = Inr (JObj [(''prompt'', JNum 42)]) \<rparr>"

definition empty_prompt :: request where
  "empty_prompt = \<lparr> req_method = ''POST'', req_json = Inr (JObj [(''prompt'', JStr [])]) \<rparr>"

definition no_prompt :: request where
  "no_prompt = \<lparr> req_method = ''POST'', req_json = Inr (JObj []) \<rparr>"

definition null_body :: request where
  "null_body = \<lparr> req_method = ''POST'', req_json = Inr JNull \<rparr>"

definition ok_json :: "jsval \<Rightarrow> upstream_response" where
  "ok_json data = \<lparr> status = 200, body_text = [], body_json = Inr data \<rparr>"

definition not_json :: upstream_response where
  "not_json = \<lparr> status = 200, body_text = ''<html>Bad Gateway</html>'',
                 body_json = Inl (SyntaxError ''Unexpected token < in JSON at position 0'') \<rparr>"

definition unavailable :: "string \<Rightarrow> upstream_response" where
  "unavailable body = \<lparr> status = 503, body_text = body, body_json = Inl (SyntaxError ''Unexpected token'') \<rparr>"

definition refused :: "nat \<Rightarrow> upstream_response" where
  "refused st = \<lparr> status = st, body_text = [], body_json = Inr (JObj []) \<rparr>"

definition assistant :: "(string \<times> jsval) list \<Rightarrow> jsval" where
  "assistant fs = JObj [(''choices'', JArr [JObj [(''message'', JObj ((''role'', JStr ''assistant'') # fs))]])]"

definition images_and_base64 :: jsval where
  "images_and_base64 =
     assistant [(''content'', JStr ''data:image/png;base64,iVBORw0KGgo=''),
                (''images'', JArr [JObj [(''type'', JStr ''image_url''),
                                         (''image_url'', JObj [(''url'', JStr ''https://x/img.png'')])]])]"

definition images_and_text :: jsval where
  "images_and_text =
     assistant [(''content'', JStr ''Here is your image.''),
                (''images'', JArr [JObj [(''type'', JStr ''image_url''),
                                         (''image_url'', JObj [(''url'', JStr ''https://x/img.png'')])]])]"

definition content_list :: jsval where
  "content_list =
     assistant [(''content'',
                 JArr [JObj [(''type'', JStr ''text''), (''text'', JStr ''Here is your image.'')],
                       JObj [(''type'', JStr ''image_url''),
                             (''image_url'', JObj [(''url'', JStr ''https://x/img.png'')])]])]"

definition base64_only :: jsval where
  "base64_only = assistant [(''content'', JStr ''Here: data:image/png;base64,iVBORw0KGgo= (done)'')]"

definition text_only :: jsval where
  "text_only = assistant [(''content'', JStr ''I cannot draw that.'')]"

definition null_entry :: jsval where
  "null_entry = assistant [(''content'', JArr [JNull])]"

definition null_then_image :: jsval where
  "null_then_image =
     assistant [(''content'',
                 JArr [JNull,
                       JObj [(''type'', JStr ''image_url''),
                             (''image_url'', JObj [(''url'', JStr ''https://x/img.png'')])]])]"




section \<open>Sequencing\<close>

lemma andThen_ret [simp]: "andThen (ret v) f = f v"
  by (simp add: andThen_def ret_def split: prod.splits)

lemma andThen_throw [simp]: "andThen (throw e) f = throw e"
  by (simp add: andThen_def throw_def)

lemma andThen_await_Inr [simp]: "andThen (await (Inr v)) f = f v"
  by (simp add: andThen_def await_def split: prod.splits)

lemma andThen_await_Inl [simp]: "andThen (await (Inl e)) f = throw e"
  by (simp add: andThen_def await_def throw_def)

lemma andThen_emit [simp]: "andThen (emit ev) f = (ev # fst (f ()), snd (f ()))"
  by (simp add: andThen_def emit_def split: prod.splits)

lemma andThen_pair_Inl [simp]: "andThen (tr, Inl e) f = (tr, Inl e)"
  by (simp add: andThen_def)

lemma andThen_pair_Inr [simp]: "andThen (tr, Inr v) f = (tr @ fst (f v), snd (f v))"
  by (simp add: andThen_def split: prod.splits)

lemma snd_andThen:
  "snd (andThen m f) = (case snd m of Inl e \<Rightarrow> Inl e | Inr v \<Rightarrow> snd (f v))"
  by (cases m) (auto simp: andThen_def split: sum.splits prod.splits)

lemma fst_andThen:
  "fst (andThen m f) = fst m @ (case snd m of Inl e \<Rightarrow> [] | Inr v \<Rightarrow> fst (f v))"
  by (cases m) (auto simp: andThen_def split: sum.splits prod.splits)

lemma sent_append [simp]: "sent (a @ b) = sent a @ sent b"
  by (induction a rule: sent.induct) simp_all

section \<open>Optional and strict reads\<close>

text \<open>
  Where the optional chain ends in a value that is neither \<^verbatim>\<open>null\<close> nor \<^verbatim>\<open>undefined\<close>,
  reading the same place again without optional chaining gives that value and does not raise.
\<close>

lemma opt_chain_undefined [simp]: "opt_chain JUndefined ks = JUndefined"
  by (induction ks) (simp_all add: opt_member_def nullish_def)

lemma opt_chain_null: "ks \<noteq> [] \<Longrightarrow> opt_chain JNull ks = JUndefined"
  by (cases ks) (simp_all add: opt_member_def nullish_def)

lemma truthy_not_nullish: "truthy v \<Longrightarrow> \<not> nullish v"
  by (auto simp: nullish_def)

lemma strict_chain_opt_chain:
  "\<not> nullish (opt_chain v ks) \<Longrightarrow> strict_chain v ks = Inr (opt_chain v ks)"
proof (induction ks arbitrary: v)
  case Nil
  then show ?case by simp
next
  case (Cons k ks)
  have nv: "\<not> nullish v"
  proof
    assume "nullish v"
    then have "opt_chain v (k # ks) = JUndefined" by (simp add: opt_member_def)
    with Cons.prems show False by (simp add: nullish_def)
  qed
  then have "member v k = Inr (opt_member v k)" by (simp add: member_def opt_member_def)
  moreover have "\<not> nullish (opt_chain (opt_member v k) ks)" using Cons.prems by simp
  ultimately show ?case using Cons.IH by simp
qed

lemma strict_chain_message_path:
  assumes "message_path data ks = Inr c" "\<not> nullish c"
  shows "strict_chain data (Name ''choices'' # Idx 0 # Name ''message'' # ks) = Inr c"
proof -
  from assms(1) obtain choices where m: "member data (Name ''choices'') = Inr choices"
    and c: "c = opt_chain choices (Idx 0 # Name ''message'' # ks)"
    by (auto simp: message_path_def split: sum.splits)
  from c assms(2) have "strict_chain choices (Idx 0 # Name ''message'' # ks) = Inr c"
    using strict_chain_opt_chain by blast
  with m show ?thesis by simp
qed

lemma message_path_Inr:
  "\<not> nullish data \<Longrightarrow>
   message_path data ks = Inr (opt_chain (get data (Name ''choices'')) (Idx 0 # Name ''message'' # ks))"
  by (simp add: message_path_def member_def)

lemma message_path_Inl:
  "nullish data \<Longrightarrow> message_path data ks = Inl (TypeError (cannot_read data (Name ''choices'')))"
  by (simp add: message_path_def member_def)

section \<open>The matcher\<close>




lemma string_match_suffix:
  "string_match re s = Some m \<Longrightarrow> \<exists>t. suffix t s \<and> match_here re t = Some m"
proof (induction s)
  case Nil
  then show ?case by auto
next
  case (Cons c s)
  show ?case
  proof (cases "match_here re (c # s)")
    case None
    with Cons obtain t where "suffix t s" "match_here re t = Some m" by auto
    then show ?thesis by (auto intro: suffix_ConsI)
  next
    case (Some a)
    with Cons.prems have "match_here re (c # s) = Some m" by simp
    then show ?thesis by blast
  qed
qed


lemma data_uri_match_nonempty:
  assumes "string_match data_uri_regex s = Some m"
  shows "m \<noteq> []"
proof -
  from assms obtain t where "match_here data_uri_regex t = Some m"
    using string_match_suffix by blast
  then show ?thesis by (auto simp: data_uri_regex_def split: if_splits)
qed







section \<open>The paths compute the strategies\<close>

lemma path1_eq:
  "snd (path1 data u) =
     (case strategy1 data of Inl e \<Rightarrow> Inl e | Inr c \<Rightarrow> if truthy c then Inr c else Inr u)"
proof (cases "strategy1 data")
  case (Inl e)
  then show ?thesis by (simp add: path1_def strategy1_def throw_def)
next
  case (Inr c)
  show ?thesis
  proof (cases "truthy c")
    case True
    then have "strict_chain data [Name ''choices'', Idx 0, Name ''message'', Name ''images'', Idx 0,
                             Name ''image_url'', Name ''url''] = Inr c"
      using Inr strict_chain_message_path truthy_not_nullish unfolding strategy1_def by blast
    with Inr True show ?thesis
      by (simp add: path1_def strategy1_def found_via_def ret_def)
  next
    case False
    with Inr show ?thesis by (simp add: path1_def strategy1_def ret_def)
  qed
qed

lemma path2_eq:
  "snd (path2 data u) =
     (if truthy u then Inr u
      else case strategy2 data of Inl e \<Rightarrow> Inl e | Inr c \<Rightarrow> if truthy c then Inr c else Inr u)"
proof (cases "strategy2 data")
  case (Inl e)
  then show ?thesis by (simp add: path2_def strategy2_def throw_def ret_def)
next
  case (Inr c)
  show ?thesis
  proof (cases "truthy c")
    case True
    then have "strict_chain data [Name ''choices'', Idx 0, Name ''message'',
                             Name ''image_url'', Name ''url''] = Inr c"
      using Inr strict_chain_message_path truthy_not_nullish unfolding strategy2_def by blast
    with Inr True show ?thesis
      by (simp add: path2_def strategy2_def found_via_def ret_def)
  next
    case False
    with Inr show ?thesis by (simp add: path2_def strategy2_def ret_def)
  qed
qed

lemma path3_eq:
  "snd (path3 data u) =
     (if truthy u then Inr u
      else case strategy3 data of Inl e \<Rightarrow> Inl e | Inr c \<Rightarrow> if truthy c then Inr c else Inr u)"
proof (cases "truthy u")
  case True
  then show ?thesis by (simp add: path3_def ret_def)
next
  case nu: False
  show ?thesis
  proof (cases "message_path data [Name ''content'']")
    case (Inl e)
    with nu show ?thesis by (simp add: path3_def strategy3_def throw_def)
  next
    case (Inr c)
    show ?thesis
    proof (cases "isArray c")
      case False
      with nu Inr show ?thesis
        by (cases c) (simp_all add: path3_def strategy3_def ret_def)
    next
      case True
      then obtain entries where c: "c = JArr entries" by (cases c) auto
      have re: "strict_chain data [Name ''choices'', Idx 0, Name ''message'', Name ''content''] = Inr c"
        using Inr c strict_chain_message_path [of data "[Name ''content'']" c]
        by (simp add: nullish_def)
      show ?thesis
      proof (cases "find_image entries")
        case (Inl e)
        with nu Inr c re show ?thesis
          by (simp add: path3_def strategy3_def elements_def throw_def)
      next
        case fi: (Inr entry)
        let ?a = "opt_chain entry [Name ''image_url'', Name ''url'']"
        let ?b = "opt_chain entry [Name ''url'']"
        have sa: "truthy ?a \<Longrightarrow> strict_chain entry [Name ''image_url'', Name ''url''] = Inr ?a"
          using strict_chain_opt_chain truthy_not_nullish by blast
        have sb: "truthy ?b \<Longrightarrow> strict_chain entry [Name ''url''] = Inr ?b"
          using strict_chain_opt_chain truthy_not_nullish by blast
        show ?thesis
        proof (cases "truthy ?a")
          case True
          with nu Inr c re fi sa show ?thesis
            by (simp add: path3_def strategy3_def elements_def found_via_def ret_def)
        next
          case na: False
          show ?thesis
          proof (cases "truthy ?b")
            case True
            with na nu Inr c re fi sb show ?thesis
              by (simp add: path3_def strategy3_def elements_def found_via_def ret_def)
          next
            case False
            with na nu Inr c re fi show ?thesis
              by (simp add: path3_def strategy3_def elements_def ret_def)
          qed
        qed
      qed
    qed
  qed
qed

lemma path4_eq:
  "snd (path4 data u) =
     (if truthy u then Inr u
      else case strategy4 data of Inl e \<Rightarrow> Inl e | Inr c \<Rightarrow> if truthy c then Inr c else Inr u)"
proof (cases "truthy u")
  case True
  then show ?thesis by (simp add: path4_def ret_def)
next
  case nu: False
  show ?thesis
  proof (cases "message_path data [Name ''content'']")
    case (Inl e)
    with nu show ?thesis by (simp add: path4_def strategy4_def throw_def)
  next
    case (Inr c)
    show ?thesis
    proof (cases "typeof c = ''string''")
      case False
      with nu Inr show ?thesis
        by (cases c) (simp_all add: path4_def strategy4_def ret_def)
    next
      case True
      then obtain s where c: "c = JStr s" by (cases c) auto
      have re: "strict_chain data [Name ''choices'', Idx 0, Name ''message'', Name ''content''] = Inr c"
        using Inr c strict_chain_message_path [of data "[Name ''content'']" c]
        by (simp add: nullish_def)
      show ?thesis
      proof (cases "string_match data_uri_regex s")
        case None
        with nu Inr c re show ?thesis
          by (simp add: path4_def strategy4_def string_of_def ret_def)
      next
        case (Some m)
        have "m \<noteq> []" using Some by (rule data_uri_match_nonempty)
        with Some nu Inr c re show ?thesis
          by (simp add: path4_def strategy4_def string_of_def found_via_def ret_def)
      qed
    qed
  qed
qed

lemma extract_imageUrl_eq:
  "snd (extract_imageUrl data) =
     first_nonempty [strategy1 data, strategy2 data, strategy3 data, strategy4 data]"
  unfolding extract_imageUrl_def snd_andThen path1_eq path2_eq path3_eq path4_eq
  by (cases "strategy1 data"; cases "strategy2 data"; cases "strategy3 data"; cases "strategy4 data")
     simp_all

lemma textContent_eq: "\<not> nullish data \<Longrightarrow> textContent data = Inr (plain_text data)"
proof -
  assume nn: "\<not> nullish data"
  let ?c = "content_of data"
  have mp: "message_path data [Name ''content''] = Inr ?c"
    using nn by (simp add: message_path_Inr content_of_def)
  show ?thesis
  proof (cases "typeof ?c = ''string''")
    case True
    then obtain s where s: "?c = JStr s" by (cases ?c) auto
    then have "strict_chain data [Name ''choices'', Idx 0, Name ''message'', Name ''content''] = Inr ?c"
      using strict_chain_message_path [OF mp] by (simp add: nullish_def)
    with mp s show ?thesis by (simp add: textContent_def plain_text_def)
  next
    case False
    with mp show ?thesis by (cases ?c) (simp_all add: textContent_def plain_text_def)
  qed
qed

lemma first_nonempty_nullish:
  "nullish data \<Longrightarrow> first_nonempty [strategy1 data, strategy2 data, strategy3 data, strategy4 data]
     = Inl (TypeError (cannot_read data (Name ''choices'')))"
  by (simp add: strategy1_def message_path_Inl)

lemma finds_nothingE:
  "finds_nothing r \<Longrightarrow> \<exists>v. r = Inr v \<and> \<not> truthy v"
  by (cases r) (simp_all add: finds_nothing_def)

lemma yieldsE:
  "yields r \<Longrightarrow> \<exists>v. r = Inr v \<and> truthy v"
  by (cases r) (simp_all add: yields_def)



lemma strategies_nullish:
  assumes "nullish data"
  shows "\<not> yields (strategy1 data)" "\<not> yields (strategy2 data)" "\<not> yields (strategy3 data)"
    "\<not> yields (strategy4 data)"
  using assms
  by (simp_all add: yields_def strategy1_def strategy2_def strategy3_def strategy4_def message_path_Inl)

lemma strategy3_throws:
  assumes "strategy3 data = Inl e" "\<not> nullish data"
  shows "strategy4 data = Inr JUndefined"
  using assms
  by (auto simp: strategy3_def strategy4_def message_path_Inr split: jsval.splits)

lemma strategy12_complete:
  assumes "\<not> nullish data"
  shows "\<exists>a. strategy1 data = Inr a" "\<exists>b. strategy2 data = Inr b"
  using assms by (simp_all add: strategy1_def strategy2_def message_path_Inr)

lemma find_yields_first_nonempty:
  assumes "List.find yields [strategy1 data, strategy2 data, strategy3 data, strategy4 data] = Some r"
  shows "\<exists>v. r = Inr v \<and> truthy v \<and>
    first_nonempty [strategy1 data, strategy2 data, strategy3 data, strategy4 data] = Inr v"
proof (cases "nullish data")
  case True
  from strategies_nullish [OF True] assms show ?thesis by simp
next
  case False
  from strategy12_complete [OF False] obtain a b
    where a: "strategy1 data = Inr a" and b: "strategy2 data = Inr b" by blast
  show ?thesis
  proof (cases "strategy3 data")
    case (Inl e)
    from strategy3_throws [OF Inl False] have "strategy4 data = Inr JUndefined" .
    with assms a b Inl show ?thesis by (auto simp: yields_def split: if_splits)
  next
    case (Inr c)
    show ?thesis
    proof (cases "strategy4 data")
      case (Inl e)
      with assms a b Inr show ?thesis by (auto simp: yields_def split: if_splits)
    next
      case d: (Inr d)
      with assms a b Inr show ?thesis by (auto simp: yields_def split: if_splits)
    qed
  qed
qed

text \<open>
  Away from \<^verbatim>\<open>null\<close> entries the third path computes the scan of the specification.
\<close>

lemma opt_member_get: "opt_member v k = get v k"
  by (cases v) (simp_all add: opt_member_def nullish_def)

lemma opt_chain_get2: "opt_chain v [k1, k2] = get (get v k1) k2"
  by (simp add: opt_member_get)

lemma opt_chain_get1: "opt_chain v [k] = get v k"
  by (simp add: opt_member_get)

lemma find_image_scan:
  "list_all (\<lambda>c. \<not> nullish c) entries \<Longrightarrow>
   find_image entries
     = Inr (case filter tagged_as_image entries of [] \<Rightarrow> JUndefined | entry # _ \<Rightarrow> entry)"
  by (induction entries) (auto simp: member_def tagged_as_image_def)

lemma image_reference_undefined [simp]: "image_reference JUndefined = JUndefined"
  by (simp add: image_reference_def)

lemma strategy3_scan:
  assumes "\<not> nullish data" "no_null_entry data"
  shows "strategy3 data = Inr (content_list_scan data)"
proof (cases "content_of data")
  case (JArr entries)
  then have mp: "message_path data [Name ''content''] = Inr (JArr entries)"
    using assms(1) by (simp add: message_path_Inr content_of_def)
  from JArr assms(2) have "list_all (\<lambda>c. \<not> nullish c) entries" by (simp add: no_null_entry_def)
  then have fi: "find_image entries
     = Inr (case filter tagged_as_image entries of [] \<Rightarrow> JUndefined | entry # _ \<Rightarrow> entry)"
    by (rule find_image_scan)
  show ?thesis
    unfolding strategy3_def mp content_list_scan_def JArr scan_content_list_def
    by (simp add: fi opt_chain_get2 opt_chain_get1 image_reference_def del: opt_chain.simps
        split: list.splits)
qed (use assms(1) in \<open>simp_all add: strategy3_def content_list_scan_def message_path_Inr content_of_def\<close>)

lemma content_list_scan_nullish: "nullish data \<Longrightarrow> content_list_scan data = JUndefined"
  by (auto simp: content_list_scan_def content_of_def nullish_def opt_member_def)

section \<open>The handler after validation\<close>

lemma on_success_eq:
  assumes "body_json response = Inr data"
  shows "snd (on_success response) = outcome data"
proof (cases "nullish data")
  case True
  then show ?thesis using assms
    by (simp add: on_success_def snd_andThen extract_imageUrl_eq first_nonempty_nullish outcome_def
        await_def emit_def)
next
  case False
  then show ?thesis using assms
    by (simp add: on_success_def snd_andThen extract_imageUrl_eq textContent_eq outcome_def
        await_def emit_def ret_def split: sum.splits)
qed

lemma on_failure_eq:
  "snd (on_failure response) =
     (if status response = 429 then Inr rate_limited
      else if status response = 402 then Inr payment_required
      else Inl (Error (gateway_error (status response))))"
  by (simp add: on_failure_def ret_def throw_def)

lemma answered_try_block:
  assumes "answered k fetch req response"
  shows "snd (try_block (Some k) fetch req) =
           (if response_ok response then snd (on_success response) else snd (on_failure response))"
proof -
  from assms obtain b p where b: "req_json req = Inr b" and p: "get b (Name ''prompt'') = JStr p"
    and pn: "p \<noteq> []" and k: "k \<noteq> []"
    and f: "fetch (gateway_call k (messages (JStr p) (get b (Name ''editImageBase64'')))) = Inr response"
    by (auto simp: answered_def split: sum.splits jsval.splits)
  from p have nb: "\<not> nullish b" by (auto simp: nullish_def)
  show ?thesis
    using b p pn k f nb by (simp add: try_block_def destructure_def Let_def)
qed

lemma answered_serve:
  assumes "answered k fetch req response"
  shows "snd (serve (Some k) fetch req) =
           (case (if response_ok response then snd (on_success response) else snd (on_failure response)) of
              Inl e \<Rightarrow> failure e | Inr r \<Rightarrow> r)"
proof -
  from assms have m: "req_method req \<noteq> ''OPTIONS''" by (simp add: answered_def)
  show ?thesis
    using m answered_try_block [OF assms, symmetric]
    by (cases "try_block (Some k) fetch req") (auto simp: serve_def split: sum.splits)
qed

lemma serve_ok:
  assumes "answered k fetch req response" "response_ok response" "body_json response = Inr data"
  shows "snd (serve (Some k) fetch req) = (case outcome data of Inl e \<Rightarrow> failure e | Inr r \<Rightarrow> r)"
  using answered_serve [OF assms(1)] assms(2) on_success_eq [OF assms(3)] by simp

lemma serve_not_ok:
  assumes "answered k fetch req response" "\<not> response_ok response"
  shows "snd (serve (Some k) fetch req) =
     (if status response = 429 then rate_limited
      else if status response = 402 then payment_required
      else failure (Error (gateway_error (status response))))"
  using answered_serve [OF assms(1)] assms(2) by (simp add: on_failure_eq)

lemma success_inject [simp]: "success v t = success v' t' \<longleftrightarrow> v = v' \<and> t = t'"
  by (auto simp: success_def)

lemma failure_not_success [simp]: "failure e \<noteq> success v t"
  by (simp add: failure_def success_def)

text \<open>
  Every reply is the preflight reply, one of the two early returns, an error envelope or a
  success reply with a non-empty reference.
\<close>

lemma on_success_shape:
  "(\<exists>e. snd (on_success response) = Inl e)
   \<or> (\<exists>v t. truthy v \<and> snd (on_success response) = Inr (success v t))"
proof (cases "body_json response")
  case (Inl e)
  then show ?thesis by (simp add: on_success_def snd_andThen await_def)
next
  case (Inr data)
  show ?thesis
    unfolding on_success_eq [OF Inr] outcome_def
    by (auto split: sum.splits)
qed

lemma try_block_shape:
  "(\<exists>e. snd (try_block key fetch req) = Inl e)
   \<or> snd (try_block key fetch req) = Inr rate_limited
   \<or> snd (try_block key fetch req) = Inr payment_required
   \<or> (\<exists>v t. truthy v \<and> snd (try_block key fetch req) = Inr (success v t))"
proof (cases "req_json req")
  case (Inl e)
  then show ?thesis by (simp add: try_block_def throw_def)
next
  case b: (Inr b)
  show ?thesis
  proof (cases "destructure b")
    case (Inl e)
    with b show ?thesis by (simp add: try_block_def throw_def)
  next
    case (Inr pe)
    obtain prompt edit where pe: "pe = (prompt, edit)" by (cases pe)
    show ?thesis
    proof (cases "\<exists>k. key = Some k \<and> k \<noteq> [] \<and> truthy prompt \<and> typeof prompt = ''string''")
      case False
      with b Inr pe show ?thesis
        by (cases key) (auto simp: try_block_def throw_def)
    next
      case True
      then obtain k where k: "key = Some k" "k \<noteq> []" "truthy prompt" "typeof prompt = ''string''"
        by blast
      show ?thesis
      proof (cases "fetch (gateway_call k (messages prompt edit))")
        case (Inl e)
        with b Inr pe k show ?thesis
          by (simp add: try_block_def Let_def throw_def)
      next
        case r: (Inr response)
        have "snd (try_block key fetch req)
                = snd (if \<not> response_ok response then on_failure response else on_success response)"
          using b Inr pe k r by (simp add: try_block_def Let_def)
        then show ?thesis
          using on_success_shape [of response] by (auto simp: on_failure_eq)
      qed
    qed
  qed
qed

text \<open>
  The paths are tried in their order: the extraction is the first non-empty value of the
  four strategies, the reply carries the value of the first strategy that yields, and a
  populated images list wins over everything else. With the scan of the specification in
  the place of the third path, the same holds of every body without a \<^verbatim>\<open>null\<close> entry in
  its content list.
\<close>

lemma extraction_order:
  assumes "answered k fetch req response" "response_ok response" "body_json response = Inr data"
  shows "snd (extract_imageUrl data)
           = first_nonempty [strategy1 data, strategy2 data, strategy3 data, strategy4 data]
       \<and> (\<forall>v. List.find yields [strategy1 data, strategy2 data, strategy3 data, strategy4 data]
                 = Some (Inr v)
             \<longrightarrow> snd (serve (Some k) fetch req) = success v (plain_text data))
       \<and> (\<forall>u. strategy1 data = Inr u \<and> truthy u
             \<longrightarrow> snd (serve (Some k) fetch req) = success u (plain_text data))"
proof (intro conjI allI impI)
  show "snd (extract_imageUrl data)
           = first_nonempty [strategy1 data, strategy2 data, strategy3 data, strategy4 data]"
    by (rule extract_imageUrl_eq)
next
  fix v
  assume "List.find yields [strategy1 data, strategy2 data, strategy3 data, strategy4 data]
            = Some (Inr v)"
  then have "truthy v
      \<and> first_nonempty [strategy1 data, strategy2 data, strategy3 data, strategy4 data] = Inr v"
    using find_yields_first_nonempty by blast
  then show "snd (serve (Some k) fetch req) = success v (plain_text data)"
    using serve_ok [OF assms] by (simp add: outcome_def)
next
  fix u
  assume "strategy1 data = Inr u \<and> truthy u"
  then show "snd (serve (Some k) fetch req) = success u (plain_text data)"
    using serve_ok [OF assms] by (simp add: outcome_def)
qed

lemma precedence_without_null_entry:
  assumes "answered k fetch req response" "response_ok response" "body_json response = Inr data"
    and "no_null_entry data"
    and "List.find yields [strategy1 data, strategy2 data, Inr (content_list_scan data), strategy4 data]
           = Some (Inr v)"
  shows "snd (serve (Some k) fetch req) = success v (plain_text data)"
proof (cases "nullish data")
  case True
  from strategies_nullish [OF True] content_list_scan_nullish [OF True] assms(5)
  show ?thesis by (simp add: yields_def)
next
  case False
  from strategy3_scan [OF False assms(4)] assms(5)
  have "List.find yields [strategy1 data, strategy2 data, strategy3 data, strategy4 data] = Some (Inr v)"
    by simp
  then have "truthy v
      \<and> first_nonempty [strategy1 data, strategy2 data, strategy3 data, strategy4 data] = Inr v"
    using find_yields_first_nonempty by blast
  then show ?thesis
    using serve_ok [OF assms(1-3)] by (simp add: outcome_def)
qed

section \<open>The events of a run\<close>

lemma sent_path1 [simp]: "sent (fst (path1 data u)) = []"
  by (simp add: path1_def fst_andThen found_via_def emit_def ret_def await_def split: sum.splits)

lemma sent_path2 [simp]: "sent (fst (path2 data u)) = []"
  by (simp add: path2_def fst_andThen found_via_def emit_def ret_def await_def split: sum.splits)

lemma sent_path3 [simp]: "sent (fst (path3 data u)) = []"
  by (simp add: path3_def fst_andThen found_via_def emit_def ret_def await_def split: sum.splits)

lemma sent_path4 [simp]: "sent (fst (path4 data u)) = []"
  by (simp add: path4_def fst_andThen found_via_def emit_def ret_def await_def
      split: sum.splits option.splits)

lemma sent_extract [simp]: "sent (fst (extract_imageUrl data)) = []"
  by (simp add: extract_imageUrl_def fst_andThen split: sum.splits)

lemma sent_on_success [simp]: "sent (fst (on_success response)) = []"
  by (simp add: on_success_def fst_andThen emit_def ret_def await_def no_image_diagnostics_def
      Let_def split: sum.splits)

lemma sent_on_failure [simp]: "sent (fst (on_failure response)) = []"
  by (simp add: on_failure_def fst_andThen emit_def ret_def throw_def)

lemma fst_serve:
  "fst (serve key fetch req) =
     (if req_method req = ''OPTIONS'' then []
      else fst (try_block key fetch req) @
           (case snd (try_block key fetch req) of
              Inl error \<Rightarrow> [ConsoleError [LStr ''Error in generate-image function:'', LExn error]]
            | Inr r \<Rightarrow> []))"
  by (cases "try_block key fetch req") (auto simp: serve_def split: sum.splits)

lemma snd_serve:
  "snd (serve key fetch req) =
     (if req_method req = ''OPTIONS'' then preflight
      else case snd (try_block key fetch req) of Inl error \<Rightarrow> failure error | Inr r \<Rightarrow> r)"
  by (cases "try_block key fetch req") (auto simp: serve_def split: sum.splits)

lemma sent_serve: "sent (fst (serve key fetch req)) =
    (if req_method req = ''OPTIONS'' then [] else sent (fst (try_block key fetch req)))"
  by (simp add: fst_serve split: sum.splits)

lemma try_block_valid:
  assumes "req_json req = Inr b" "get b (Name ''prompt'') = JStr p" "p \<noteq> []" "k \<noteq> []"
  shows "sent (fst (try_block (Some k) fetch req))
           = [gateway_call k (messages (JStr p) (get b (Name ''editImageBase64'')))]"
proof -
  from assms(2) have nb: "\<not> nullish b" by (auto simp: nullish_def)
  show ?thesis
    using assms nb
    by (simp add: try_block_def destructure_def Let_def fst_andThen await_def
        split: sum.splits)
qed

lemma try_block_invalid:
  assumes "req_json req = Inr b" "typeof (get b (Name ''prompt'')) \<noteq> ''string'' \<or> get b (Name ''prompt'') = JStr []"
  shows "try_block key fetch req =
     (if nullish b then throw (TypeError (cannot_destructure b))
      else case key of None \<Rightarrow> throw (Error not_configured)
           | Some k \<Rightarrow> if k = [] then throw (Error not_configured) else throw (Error prompt_required))"
  using assms
  by (auto simp: try_block_def destructure_def split: option.splits)

lemma fst_try_block_not_ok:
  assumes "answered k fetch req response" "\<not> response_ok response"
  shows "set (fst (on_failure response)) \<subseteq> set (fst (serve (Some k) fetch req))"
proof -
  from assms obtain b p where b: "req_json req = Inr b" and p: "get b (Name ''prompt'') = JStr p"
    and pn: "p \<noteq> []" and k: "k \<noteq> []" and m: "req_method req \<noteq> ''OPTIONS''"
    and f: "fetch (gateway_call k (messages (JStr p) (get b (Name ''editImageBase64'')))) = Inr response"
    by (auto simp: answered_def split: sum.splits jsval.splits)
  from p have nb: "\<not> nullish b" by (auto simp: nullish_def)
  have "set (fst (on_failure response)) \<subseteq> set (fst (try_block (Some k) fetch req))"
    using b p pn k f nb assms(2)
    by (auto simp: try_block_def destructure_def Let_def fst_andThen await_def)
  then show ?thesis using m by (auto simp: fst_serve)
qed

lemma sent_valid_prompt:
  assumes "req_json req = Inr b" "get b (Name ''prompt'') = JStr p" "p \<noteq> []"
  shows "sent (fst (serve key fetch req)) =
     (case key of
        None \<Rightarrow> []
      | Some k \<Rightarrow>
          if req_method req = ''OPTIONS'' \<or> k = [] then []
          else [gateway_call k (messages (JStr p) (get b (Name ''editImageBase64'')))])"
proof (cases key)
  case None
  from assms(2) have nb: "\<not> nullish b" by (auto simp: nullish_def)
  with None assms show ?thesis
    by (simp add: sent_serve try_block_def destructure_def throw_def)
next
  case (Some k)
  from assms(2) have nb: "\<not> nullish b" by (auto simp: nullish_def)
  show ?thesis
  proof (cases "k = []")
    case True
    with Some nb assms show ?thesis
      by (simp add: sent_serve try_block_def destructure_def throw_def)
  next
    case False
    with Some assms show ?thesis
      by (simp add: sent_serve try_block_valid)
  qed
qed

lemma messages_of_gateway_call [simp]:
  "get (request_body (gateway_call k msgs)) (Name ''messages'') = msgs"
  by (simp add: gateway_call_def)

lemma reply_shapes:
  "snd (serve key fetch req) = preflight
   \<or> snd (serve key fetch req) = rate_limited
   \<or> snd (serve key fetch req) = payment_required
   \<or> (\<exists>e. snd (serve key fetch req) = failure e)
   \<or> (\<exists>v t. truthy v \<and> snd (serve key fetch req) = success v t)"
  using try_block_shape [of key fetch req]
  by (auto simp: snd_serve)

lemma failure_status:
  "reply_status (snd (serve key fetch req)) \<in> {200, 429, 402, 500}"
  using reply_shapes [of key fetch req]
  by (auto simp: preflight_def rate_limited_def payment_required_def failure_def success_def)

section \<open>Evaluation of the concrete inputs\<close>

lemmas eval_path = message_path_def member_def nullish_def opt_member_def assistant_def

lemma answered_always:
  "answered ''key'' (always response) red_circle response"
  by (simp add: answered_def always_def red_circle_def)

lemma serve_always_ok:
  "snd (serve (Some ''key'') (always (ok_json data)) red_circle)
     = (case outcome data of Inl e \<Rightarrow> failure e | Inr r \<Rightarrow> r)"
  by (rule serve_ok [OF answered_always]) (simp_all add: response_ok_def ok_json_def)

lemma strategy4_images_and_base64:
  "strategy4 images_and_base64 = Inr (JStr ''data:image/png;base64,iVBORw0KGgo='')"
  by (simp add: strategy4_def images_and_base64_def assistant_def message_path_def member_def nullish_def
        opt_member_def data_uri_regex_def not_semicolon_def base64_char_def)

lemma images_list_wins_example:
  "answered ''key'' (always (ok_json images_and_base64)) red_circle (ok_json images_and_base64)
   \<and> response_ok (ok_json images_and_base64)
   \<and> strategy4 images_and_base64 = Inr (JStr ''data:image/png;base64,iVBORw0KGgo='')
   \<and> snd (serve (Some ''key'') (always (ok_json images_and_base64)) red_circle)
       = success (JStr ''https://x/img.png'') (JStr ''data:image/png;base64,iVBORw0KGgo='')"
proof -
  have a: "answered ''key'' (always (ok_json images_and_base64)) red_circle (ok_json images_and_base64)"
    by (rule answered_always)
  have b: "response_ok (ok_json images_and_base64)" by (simp add: response_ok_def ok_json_def)
  have c: "body_json (ok_json images_and_base64) = Inr images_and_base64" by (simp add: ok_json_def)
  have s1: "strategy1 images_and_base64 = Inr (JStr ''https://x/img.png'')"
    by (simp add: strategy1_def images_and_base64_def assistant_def message_path_def member_def
        nullish_def opt_member_def)
  have t: "plain_text images_and_base64 = JStr ''data:image/png;base64,iVBORw0KGgo=''"
    by (simp add: plain_text_def content_of_def images_and_base64_def assistant_def nullish_def opt_member_def)
  show ?thesis
    using a b strategy4_images_and_base64 extraction_order [OF a b c] s1 t by simp
qed



lemma string_of_nat_503: "string_of_nat 503 = ''503''"
  by (simp add: string_of_nat.simps digit_of_def)

section \<open>The two revisions compared\<close>

text \<open>
  \<^verbatim>\<open>index.ts\<close> has the first path only. The two revisions give the same reply when that
  path finds the image and the content is a string or counts as false; they differ when
  the image is anywhere else, and when the content is a list, which \<^verbatim>\<open>index.ts\<close> returns
  as the text.
\<close>

lemma on_success_index_eq:
  assumes "body_json response = Inr data"
  shows "snd (on_success_index response) =
     (case strategy1 data of
        Inl e \<Rightarrow> Inl e
      | Inr v \<Rightarrow>
          if truthy v
          then Inr (success v (if truthy (content_of data) then content_of data else JStr []))
          else Inl (Error ''No image was generated''))"
proof (cases "nullish data")
  case True
  then show ?thesis using assms
    by (simp add: on_success_index_def snd_andThen strategy1_def message_path_Inl await_def emit_def)
next
  case False
  then show ?thesis using assms
    by (simp add: on_success_index_def snd_andThen strategy1_def message_path_Inr content_of_def
        await_def emit_def ret_def throw_def)
qed

lemma revisions_agree:
  assumes "body_json response = Inr data" "yields (strategy1 data)"
    and "typeof (content_of data) = ''string'' \<or> \<not> truthy (content_of data)"
  shows "snd (on_success_index response) = snd (on_success response)"
proof -
  from assms(2) obtain v where v: "strategy1 data = Inr v" "truthy v" using yieldsE by blast
  have "plain_text data = (if truthy (content_of data) then content_of data else JStr [])"
    using assms(3) by (cases "content_of data") (auto simp: plain_text_def)
  then show ?thesis
    using v by (simp add: on_success_index_eq [OF assms(1)] on_success_eq [OF assms(1)] outcome_def)
qed

lemma index_has_first_path_only:
  "snd (on_success_index (ok_json base64_only)) = Inl (Error ''No image was generated'')"
  by (simp add: on_success_index_eq [where data = base64_only] ok_json_def strategy1_def
      base64_only_def eval_path)

lemma index_returns_content_list:
  "snd (on_success_index (ok_json
         (assistant [(''content'', JArr [JObj [(''type'', JStr ''text'')]]),
                     (''images'', JArr [JObj [(''image_url'', JObj [(''url'', JStr ''https://x/img.png'')])]])])))
   = Inr (success (JStr ''https://x/img.png'') (JArr [JObj [(''type'', JStr ''text'')]]))"
  by (simp add: on_success_index_eq [where data = "assistant [(''content'', JArr [JObj [(''type'', JStr ''text'')]]),
                     (''images'', JArr [JObj [(''image_url'', JObj [(''url'', JStr ''https://x/img.png'')])]])]"]
      ok_json_def strategy1_def content_of_def eval_path)

section \<open>The claims\<close>

text \<open>
  All theorems below are about \<open>serve\<close>, the handler with the four paths, which is the
  one the specification describes. A reply is the second component of a run, its events
  the first.
\<close>

subsection \<open>C1\<close>

text \<open>
  Claim C1 says that for every response with a success status the handler tries the four
  strategies in their order and returns the first non-empty reference. Away from \<^verbatim>\<open>null\<close>
  entries it does (\<open>precedence_without_null_entry\<close>). On the content list
  \<^verbatim>\<open>[null, {type: "image_url", image_url: {url: "https://x/img.png"}}]\<close> strategies 1 and 2
  find nothing and the scan of the content list reads the reference of its image entry,
  which is then the first non-empty reference; but the callback of \<^verbatim>\<open>find\<close> (line 95)
  reads \<^verbatim>\<open>c.type\<close> of the \<^verbatim>\<open>null\<close> entry without optional chaining, where every other
  read of the four paths has it: the scan raises and the reply is the error envelope of
  the TypeError.
\<close>

theorem null_entry_hides_later_image:
  "content_of null_then_image
     = JArr [JNull,
             JObj [(''type'', JStr ''image_url''),
                   (''image_url'', JObj [(''url'', JStr ''https://x/img.png'')])]]
   \<and> scan_content_list
         [JNull,
          JObj [(''type'', JStr ''image_url''),
                (''image_url'', JObj [(''url'', JStr ''https://x/img.png'')])]]
       = JStr ''https://x/img.png''
   \<and> finds_nothing (strategy1 null_then_image) \<and> finds_nothing (strategy2 null_then_image)
   \<and> find_image
         [JNull,
          JObj [(''type'', JStr ''image_url''),
                (''image_url'', JObj [(''url'', JStr ''https://x/img.png'')])]]
       = Inl (TypeError (cannot_read JNull (Name ''type'')))
   \<and> snd (serve (Some ''key'') (always (ok_json null_then_image)) red_circle)
       = \<lparr> reply_status = 500, reply_headers = json_headers,
           reply_body = Some (JObj [(''error'', JStr (cannot_read JNull (Name ''type''))),
                                    (''success'', JBool False)]) \<rparr>"
proof -
  have c: "content_of null_then_image
     = JArr [JNull,
             JObj [(''type'', JStr ''image_url''),
                   (''image_url'', JObj [(''url'', JStr ''https://x/img.png'')])]]"
    by (simp add: content_of_def null_then_image_def eval_path)
  have s: "scan_content_list
         [JNull,
          JObj [(''type'', JStr ''image_url''),
                (''image_url'', JObj [(''url'', JStr ''https://x/img.png'')])]]
       = JStr ''https://x/img.png''"
    by (simp add: scan_content_list_def tagged_as_image_def image_reference_def)
  have 1: "strategy1 null_then_image = Inr JUndefined"
    by (simp add: strategy1_def null_then_image_def eval_path)
  have 2: "strategy2 null_then_image = Inr JUndefined"
    by (simp add: strategy2_def null_then_image_def eval_path)
  have f: "find_image
         [JNull,
          JObj [(''type'', JStr ''image_url''),
                (''image_url'', JObj [(''url'', JStr ''https://x/img.png'')])]]
       = Inl (TypeError (cannot_read JNull (Name ''type'')))"
    by (simp add: member_def nullish_def)
  have 3: "strategy3 null_then_image = Inl (TypeError (cannot_read JNull (Name ''type'')))"
    by (simp add: strategy3_def null_then_image_def eval_path)
  have "outcome null_then_image = Inl (TypeError (cannot_read JNull (Name ''type'')))"
    by (simp add: outcome_def 1 2 3)
  then have r: "snd (serve (Some ''key'') (always (ok_json null_then_image)) red_circle)
               = failure (TypeError (cannot_read JNull (Name ''type'')))"
    by (simp add: serve_always_ok)
  show ?thesis
    by (simp add: c s r 1 2 finds_nothing_def failure_def member_def nullish_def)
qed

subsection \<open>C2\<close>

text \<open>
  Claim C2. For every request with a non-empty string prompt, the message payload of the
  call the handler makes is a single user message: its content is the plain prompt string
  when there is no \<^verbatim>\<open>editImageBase64\<close> (reading it gives \<^verbatim>\<open>undefined\<close>, or a value that
  counts as false), and a list of exactly one text entry followed by one \<^verbatim>\<open>image_url\<close>
  entry, in that order, when \<^verbatim>\<open>editImageBase64\<close> is present (a value that counts as true,
  as every non-empty string, so every data URI, does). The statement is about every call
  among the events of the run; the run holds exactly one call when the credential is
  configured and the request is not a preflight.
\<close>

theorem message_payload_shape:
  assumes "req_json req = Inr b" "get b (Name ''prompt'') = JStr p" "p \<noteq> []"
  shows "(\<not> truthy (get b (Name ''editImageBase64'')) \<longrightarrow>
            (\<forall>c\<in>set (sent (fst (serve key fetch req))).
               get (request_body c) (Name ''messages'')
                 = JArr [JObj [(''role'', JStr ''user''), (''content'', JStr p)]]))
       \<and> (truthy (get b (Name ''editImageBase64'')) \<longrightarrow>
            (\<forall>c\<in>set (sent (fst (serve key fetch req))).
               get (request_body c) (Name ''messages'')
                 = JArr [JObj [(''role'', JStr ''user''),
                               (''content'',
                                JArr [JObj [(''type'', JStr ''text''), (''text'', JStr p)],
                                      JObj [(''type'', JStr ''image_url''),
                                            (''image_url'',
                                             JObj [(''url'', get b (Name ''editImageBase64''))])]])]]))
       \<and> (req_method req \<noteq> ''OPTIONS'' \<and> (\<exists>k. key = Some k \<and> k \<noteq> []) \<longrightarrow>
            length (sent (fst (serve key fetch req))) = 1)"
  unfolding sent_valid_prompt [OF assms]
  by (auto simp: messages_def split: option.splits)

text \<open>
  Witness for C2: a request without an edit target and an edit request.
\<close>

theorem message_payload_shape_witness:
  "get (JObj [(''prompt'', JStr ''a red circle'')]) (Name ''editImageBase64'') = JUndefined
   \<and> map (\<lambda>c. get (request_body c) (Name ''messages''))
         (sent (fst (serve (Some ''key'') (always (ok_json JNull)) red_circle)))
       = [JArr [JObj [(''role'', JStr ''user''), (''content'', JStr ''a red circle'')]]]
   \<and> get (JObj [(''prompt'', JStr ''make it blue''),
                 (''editImageBase64'', JStr ''data:image/png;base64,iVBORw0KGgo='')])
          (Name ''editImageBase64'') = JStr ''data:image/png;base64,iVBORw0KGgo=''
   \<and> map (\<lambda>c. get (request_body c) (Name ''messages''))
         (sent (fst (serve (Some ''key'') (always (ok_json JNull)) edit_request)))
       = [JArr [JObj [(''role'', JStr ''user''),
                      (''content'',
                       JArr [JObj [(''type'', JStr ''text''), (''text'', JStr ''make it blue'')],
                             JObj [(''type'', JStr ''image_url''),
                                   (''image_url'',
                                    JObj [(''url'', JStr ''data:image/png;base64,iVBORw0KGgo='')])]])]]]"
proof -
  have r: "req_json red_circle = Inr (JObj [(''prompt'', JStr ''a red circle'')])"
    "get (JObj [(''prompt'', JStr ''a red circle'')]) (Name ''prompt'') = JStr ''a red circle''"
    "''a red circle'' \<noteq> []"
    by (simp_all add: red_circle_def)
  have e: "req_json edit_request
             = Inr (JObj [(''prompt'', JStr ''make it blue''),
                          (''editImageBase64'', JStr ''data:image/png;base64,iVBORw0KGgo='')])"
    "get (JObj [(''prompt'', JStr ''make it blue''),
                (''editImageBase64'', JStr ''data:image/png;base64,iVBORw0KGgo='')])
         (Name ''prompt'') = JStr ''make it blue''"
    "''make it blue'' \<noteq> []"
    by (simp_all add: edit_request_def)
  have m: "req_method red_circle \<noteq> ''OPTIONS''" "req_method edit_request \<noteq> ''OPTIONS''"
    by (simp_all add: red_circle_def edit_request_def)
  have sr: "sent (fst (serve (Some ''key'') (always (ok_json JNull)) red_circle))
              = [gateway_call ''key'' (messages (JStr ''a red circle'') JUndefined)]"
    using sent_valid_prompt [OF r, of "Some ''key''" "always (ok_json JNull)"] m by simp
  have se: "sent (fst (serve (Some ''key'') (always (ok_json JNull)) edit_request))
              = [gateway_call ''key''
                   (messages (JStr ''make it blue'') (JStr ''data:image/png;base64,iVBORw0KGgo=''))]"
    using sent_valid_prompt [OF e, of "Some ''key''" "always (ok_json JNull)"] m by simp
  from message_payload_shape [OF r, of "Some ''key''" "always (ok_json JNull)"]
       message_payload_shape [OF e, of "Some ''key''" "always (ok_json JNull)"]
  show ?thesis
    unfolding sr se by simp
qed

subsection \<open>C3\<close>




subsection \<open>C4\<close>

text \<open>
  Claim C4 as stated fails where the strategies do not run to completion. With the content
  list \<^verbatim>\<open>[null]\<close> no strategy yields a reference, but the callback of \<^verbatim>\<open>find\<close> reads
  \<^verbatim>\<open>c.type\<close> of \<^verbatim>\<open>null\<close>: the reply is the error envelope of the TypeError, not the one
  of the no-image error. With a body that is not JSON nothing is extracted either, and the
  reply is the error envelope of the parser's error.
\<close>

theorem raised_error_is_not_no_image:
  "\<not> yields (strategy1 null_entry) \<and> \<not> yields (strategy2 null_entry)
   \<and> \<not> yields (strategy3 null_entry) \<and> \<not> yields (strategy4 null_entry)
   \<and> reply_body (snd (serve (Some ''key'') (always (ok_json null_entry)) red_circle))
       = Some (JObj [(''error'', JStr (cannot_read JNull (Name ''type''))), (''success'', JBool False)])
   \<and> cannot_read JNull (Name ''type'')
       \<noteq> ''No image was generated. The AI model might be experiencing issues.''
   \<and> response_ok not_json
   \<and> reply_body (snd (serve (Some ''key'') (always not_json) red_circle))
       = Some (JObj [(''error'', JStr ''Unexpected token < in JSON at position 0''),
                     (''success'', JBool False)])"
proof -
  have 1: "strategy1 null_entry = Inr JUndefined"
    by (simp add: strategy1_def null_entry_def eval_path)
  have 2: "strategy2 null_entry = Inr JUndefined"
    by (simp add: strategy2_def null_entry_def eval_path)
  have 3: "strategy3 null_entry = Inl (TypeError (cannot_read JNull (Name ''type'')))"
    by (simp add: strategy3_def null_entry_def eval_path)
  have 4: "strategy4 null_entry = Inr JUndefined"
    by (simp add: strategy4_def null_entry_def eval_path)
  have "outcome null_entry = Inl (TypeError (cannot_read JNull (Name ''type'')))"
    by (simp add: outcome_def 1 2 3 4)
  then have a: "snd (serve (Some ''key'') (always (ok_json null_entry)) red_circle)
               = failure (TypeError (cannot_read JNull (Name ''type'')))"
    by (simp add: serve_always_ok)
  have ok: "response_ok not_json" by (simp add: response_ok_def not_json_def)
  have "snd (on_success not_json) = Inl (SyntaxError ''Unexpected token < in JSON at position 0'')"
    by (simp add: on_success_def not_json_def throw_def)
  then have b: "snd (serve (Some ''key'') (always not_json) red_circle)
               = failure (SyntaxError ''Unexpected token < in JSON at position 0'')"
    using answered_serve [OF answered_always, of not_json] ok by simp
  show ?thesis
    by (simp add: a b ok 1 2 3 4 yields_def failure_def cannot_read_def)
qed

text \<open>
  Claim C4, amended. For every provider response with a success status and a JSON body on
  which each of the four strategies completes without a non-empty reference, the call
  fails with the no-image error: the reply has status 500 and the body
  \<^verbatim>\<open>{error: "No image was generated. ...", success: false}\<close>, without \<^verbatim>\<open>imageUrl\<close>.
\<close>

theorem no_image_failure:
  assumes "answered k fetch req response" "response_ok response" "body_json response = Inr data"
    and "finds_nothing (strategy1 data)" "finds_nothing (strategy2 data)"
    and "finds_nothing (strategy3 data)" "finds_nothing (strategy4 data)"
  shows "snd (serve (Some k) fetch req)
           = \<lparr> reply_status = 500, reply_headers = json_headers,
               reply_body =
                 Some (JObj [(''error'',
                              JStr ''No image was generated. The AI model might be experiencing issues.''),
                             (''success'', JBool False)]) \<rparr>"
proof -
  from assms(4-7) obtain a b c d where
    "strategy1 data = Inr a" "\<not> truthy a" "strategy2 data = Inr b" "\<not> truthy b"
    "strategy3 data = Inr c" "\<not> truthy c" "strategy4 data = Inr d" "\<not> truthy d"
    using finds_nothingE by metis
  then have "outcome data = Inl (Error no_image)" by (simp add: outcome_def)
  then show ?thesis
    using serve_ok [OF assms(1-3)] by (simp add: failure_def no_image_def)
qed

text \<open>
  Witness for C4: a response whose content is text without an image.
\<close>

theorem no_image_failure_witness:
  "finds_nothing (strategy1 text_only) \<and> finds_nothing (strategy2 text_only)
   \<and> finds_nothing (strategy3 text_only) \<and> finds_nothing (strategy4 text_only)
   \<and> snd (serve (Some ''key'') (always (ok_json text_only)) red_circle)
           = \<lparr> reply_status = 500, reply_headers = json_headers,
               reply_body =
                 Some (JObj [(''error'',
                              JStr ''No image was generated. The AI model might be experiencing issues.''),
                             (''success'', JBool False)]) \<rparr>"
proof -
  have a: "answered ''key'' (always (ok_json text_only)) red_circle (ok_json text_only)"
    by (rule answered_always)
  have b: "response_ok (ok_json text_only)" by (simp add: response_ok_def ok_json_def)
  have c: "body_json (ok_json text_only) = Inr text_only" by (simp add: ok_json_def)
  have 1: "finds_nothing (strategy1 text_only)"
    by (simp add: finds_nothing_def strategy1_def text_only_def eval_path)
  have 2: "finds_nothing (strategy2 text_only)"
    by (simp add: finds_nothing_def strategy2_def text_only_def eval_path)
  have 3: "finds_nothing (strategy3 text_only)"
    by (simp add: finds_nothing_def strategy3_def text_only_def eval_path)
  have 4: "finds_nothing (strategy4 text_only)"
    by (simp add: finds_nothing_def strategy4_def text_only_def eval_path data_uri_regex_def)
  from no_image_failure [OF a b c 1 2 3 4] 1 2 3 4 show ?thesis by simp
qed

subsection \<open>C5\<close>

text \<open>
  Claim C5 as stated fails in its last part: the error payload of an upstream failure holds
  the status code only. Two responses of status 503 with different bodies get the same
  reply, \<^verbatim>\<open>{error: "AI gateway error: 503", success: false}\<close>.
\<close>

theorem upstream_body_not_in_payload:
  "snd (serve (Some ''key'') (always (unavailable ''upstream overloaded'')) red_circle)
     = \<lparr> reply_status = 500, reply_headers = json_headers,
         reply_body = Some (JObj [(''error'', JStr ''AI gateway error: 503''),
                                  (''success'', JBool False)]) \<rparr>
   \<and> snd (serve (Some ''key'') (always (unavailable ''quota exhausted'')) red_circle)
     = snd (serve (Some ''key'') (always (unavailable ''upstream overloaded'')) red_circle)"
proof -
  have "snd (serve (Some ''key'') (always (unavailable body)) red_circle)
     = \<lparr> reply_status = 500, reply_headers = json_headers,
         reply_body = Some (JObj [(''error'', JStr ''AI gateway error: 503''),
                                  (''success'', JBool False)]) \<rparr>" for body
    using serve_not_ok [OF answered_always, of "unavailable body"]
    by (simp add: unavailable_def response_ok_def failure_def gateway_error_def string_of_nat_503)
  then show ?thesis by simp
qed

text \<open>
  Claim C5, amended. For every upstream status outside 200 to 299: 429 gives the rate-limit
  reply with status 429, 402 the payment-required reply with status 402, and any other
  status the error envelope with status 500 whose error text is \<^verbatim>\<open>AI gateway error: \<close>
  followed by the upstream status code; the upstream response body is written to the
  error console together with the status, and is not part of the reply.
\<close>

theorem upstream_status_mapping:
  assumes "answered k fetch req response" "\<not> response_ok response"
  shows "(status response = 429 \<longrightarrow>
            snd (serve (Some k) fetch req)
              = \<lparr> reply_status = 429, reply_headers = json_headers,
                  reply_body =
                    Some (JObj [(''error'', JStr ''Rate limit exceeded. Please try again later.'')]) \<rparr>)
       \<and> (status response = 402 \<longrightarrow>
            snd (serve (Some k) fetch req)
              = \<lparr> reply_status = 402, reply_headers = json_headers,
                  reply_body =
                    Some (JObj [(''error'',
                                 JStr ''Payment required. Please add credits to your workspace.'')]) \<rparr>)
       \<and> (status response \<noteq> 429 \<and> status response \<noteq> 402 \<longrightarrow>
            snd (serve (Some k) fetch req)
              = \<lparr> reply_status = 500, reply_headers = json_headers,
                  reply_body =
                    Some (JObj [(''error'', JStr (''AI gateway error: '' @ string_of_nat (status response))),
                                (''success'', JBool False)]) \<rparr>
            \<and> ConsoleError [LStr ''AI gateway error:'', LNum (status response),
                             LStr (body_text response)]
                \<in> set (fst (serve (Some k) fetch req)))"
proof (intro conjI impI)
  assume "status response = 429"
  then show "snd (serve (Some k) fetch req)
              = \<lparr> reply_status = 429, reply_headers = json_headers,
                  reply_body =
                    Some (JObj [(''error'', JStr ''Rate limit exceeded. Please try again later.'')]) \<rparr>"
    using serve_not_ok [OF assms] by (simp add: rate_limited_def)
next
  assume "status response = 402"
  then show "snd (serve (Some k) fetch req)
              = \<lparr> reply_status = 402, reply_headers = json_headers,
                  reply_body =
                    Some (JObj [(''error'',
                                 JStr ''Payment required. Please add credits to your workspace.'')]) \<rparr>"
    using serve_not_ok [OF assms] by (simp add: payment_required_def)
next
  assume "status response \<noteq> 429 \<and> status response \<noteq> 402"
  then show "snd (serve (Some k) fetch req)
              = \<lparr> reply_status = 500, reply_headers = json_headers,
                  reply_body =
                    Some (JObj [(''error'', JStr (''AI gateway error: '' @ string_of_nat (status response))),
                                (''success'', JBool False)]) \<rparr>"
    using serve_not_ok [OF assms] by (simp add: failure_def gateway_error_def)
next
  assume "status response \<noteq> 429 \<and> status response \<noteq> 402"
  then have "ConsoleError [LStr ''AI gateway error:'', LNum (status response),
                             LStr (body_text response)] \<in> set (fst (on_failure response))"
    by (simp add: on_failure_def fst_andThen emit_def)
  then show "ConsoleError [LStr ''AI gateway error:'', LNum (status response),
                             LStr (body_text response)]
                \<in> set (fst (serve (Some k) fetch req))"
    using fst_try_block_not_ok [OF assms] by blast
qed

text \<open>
  Witness for C5: upstream statuses 429, 402 and 503.
\<close>

theorem upstream_status_mapping_witness:
  "reply_status (snd (serve (Some ''key'') (always (refused 429)) red_circle)) = 429
   \<and> reply_status (snd (serve (Some ''key'') (always (refused 402)) red_circle)) = 402
   \<and> snd (serve (Some ''key'') (always (unavailable ''upstream overloaded'')) red_circle)
       = \<lparr> reply_status = 500, reply_headers = json_headers,
           reply_body = Some (JObj [(''error'', JStr ''AI gateway error: 503''),
                                    (''success'', JBool False)]) \<rparr>
   \<and> ConsoleError [LStr ''AI gateway error:'', LNum 503, LStr ''upstream overloaded'']
       \<in> set (fst (serve (Some ''key'') (always (unavailable ''upstream overloaded'')) red_circle))"
proof -
  have n: "\<not> response_ok (refused 429)" "\<not> response_ok (refused 402)"
    "\<not> response_ok (unavailable ''upstream overloaded'')"
    by (simp_all add: response_ok_def refused_def unavailable_def)
  from upstream_status_mapping [OF answered_always n(1)]
       upstream_status_mapping [OF answered_always n(2)]
       upstream_status_mapping [OF answered_always n(3)]
  show ?thesis
    by (simp add: refused_def unavailable_def string_of_nat_503)
qed

subsection \<open>C6\<close>

text \<open>
  Claim C6 says that every failure reply has the body \<^verbatim>\<open>{error, success: false}\<close>, the
  replies with status 429 and 402 included. The early returns of lines 58 and 64 build
  \<^verbatim>\<open>{error}\<close> alone, while the envelope of the \<^verbatim>\<open>catch\<close> block (line 140) has both
  fields: reading \<^verbatim>\<open>success\<close> from the body of either reply gives \<^verbatim>\<open>undefined\<close>.
\<close>

theorem refusals_lack_success_field:
  "reply_body (snd (serve (Some ''key'') (always (refused 429)) red_circle))
     = Some (JObj [(''error'', JStr ''Rate limit exceeded. Please try again later.'')])
   \<and> get (JObj [(''error'', JStr ''Rate limit exceeded. Please try again later.'')]) (Name ''success'')
       = JUndefined
   \<and> reply_body (snd (serve (Some ''key'') (always (refused 402)) red_circle))
     = Some (JObj [(''error'', JStr ''Payment required. Please add credits to your workspace.'')])
   \<and> get (JObj [(''error'', JStr ''Payment required. Please add credits to your workspace.'')])
         (Name ''success'')
       = JUndefined"
proof -
  have n: "\<not> response_ok (refused 429)" "\<not> response_ok (refused 402)"
    by (simp_all add: response_ok_def refused_def)
  show ?thesis
    using serve_not_ok [OF answered_always n(1)] serve_not_ok [OF answered_always n(2)]
    by (simp add: refused_def rate_limited_def payment_required_def)
qed

subsection \<open>C7\<close>

text \<open>
  Claim C7 as stated fails where the credential is not configured: line 17 comes before
  line 21, so a request without a prompt is then answered with the configuration error,
  not with the validation error. It also fails on the body \<^verbatim>\<open>null\<close>, whose destructuring in
  line 14 raises a TypeError.
\<close>

theorem invalid_prompt_other_errors:
  "snd (serve None (always (ok_json JNull)) no_prompt)
     = \<lparr> reply_status = 500, reply_headers = json_headers,
         reply_body = Some (JObj [(''error'', JStr ''LOVABLE_API_KEY is not configured''),
                                  (''success'', JBool False)]) \<rparr>
   \<and> snd (serve (Some ''key'') (always (ok_json JNull)) null_body)
     = \<lparr> reply_status = 500, reply_headers = json_headers,
         reply_body = Some (JObj [(''error'', JStr (cannot_destructure JNull)),
                                  (''success'', JBool False)]) \<rparr>
   \<and> cannot_destructure JNull \<noteq> ''Prompt is required and must be a string''"
  by (simp add: snd_serve no_prompt_def null_body_def
      try_block_invalid [where b = "JObj []"] try_block_invalid [where b = JNull]
      nullish_def throw_def failure_def not_configured_def cannot_destructure_def)

text \<open>
  Claim C7, amended. For every request whose JSON body has a prompt that is missing or not
  a string, the handler makes no outbound call and its run does not depend on the
  provider; unless the request is a preflight the reply has status 500; and when moreover
  the body is not \<^verbatim>\<open>null\<close> and the credential is configured, the reply is the error
  envelope of the validation error.
\<close>

theorem invalid_prompt_no_fetch:
  assumes "req_json req = Inr b" "typeof (get b (Name ''prompt'')) \<noteq> ''string''"
  shows "sent (fst (serve key fetch req)) = []
       \<and> serve key fetch req = serve key fetch' req
       \<and> (req_method req \<noteq> ''OPTIONS'' \<longrightarrow> reply_status (snd (serve key fetch req)) = 500)
       \<and> (req_method req \<noteq> ''OPTIONS'' \<and> \<not> nullish b \<and> (\<exists>k. key = Some k \<and> k \<noteq> []) \<longrightarrow>
            snd (serve key fetch req)
              = \<lparr> reply_status = 500, reply_headers = json_headers,
                  reply_body = Some (JObj [(''error'', JStr ''Prompt is required and must be a string''),
                                           (''success'', JBool False)]) \<rparr>)"
proof -
  have tb: "try_block key fetch req =
     (if nullish b then throw (TypeError (cannot_destructure b))
      else case key of None \<Rightarrow> throw (Error not_configured)
           | Some k \<Rightarrow> if k = [] then throw (Error not_configured) else throw (Error prompt_required))"
    for fetch
    using assms by (intro try_block_invalid) simp_all
  have 1: "sent (fst (serve key fetch req)) = []"
    by (simp add: sent_serve tb throw_def split: option.splits)
  have 2: "serve key fetch req = serve key fetch' req"
    by (simp add: serve_def tb)
  have 3: "req_method req \<noteq> ''OPTIONS'' \<longrightarrow> reply_status (snd (serve key fetch req)) = 500"
    by (simp add: snd_serve tb throw_def failure_def split: option.splits)
  have 4: "req_method req \<noteq> ''OPTIONS'' \<and> \<not> nullish b \<and> (\<exists>k. key = Some k \<and> k \<noteq> []) \<longrightarrow>
            snd (serve key fetch req)
              = \<lparr> reply_status = 500, reply_headers = json_headers,
                  reply_body = Some (JObj [(''error'', JStr ''Prompt is required and must be a string''),
                                           (''success'', JBool False)]) \<rparr>"
    by (auto simp: snd_serve tb throw_def failure_def prompt_required_def)
  from 1 2 3 4 show ?thesis by blast
qed

text \<open>
  Witness for C7: the prompt 42.
\<close>

theorem invalid_prompt_no_fetch_witness:
  "typeof (get (JObj [(''prompt'', JNum 42)]) (Name ''prompt'')) \<noteq> ''string''
   \<and> serve (Some ''key'') (always (ok_json JNull)) numeric_prompt
       = ([ConsoleError [LStr ''Error in generate-image function:'',
                         LExn (Error ''Prompt is required and must be a string'')]],
          \<lparr> reply_status = 500, reply_headers = json_headers,
            reply_body = Some (JObj [(''error'', JStr ''Prompt is required and must be a string''),
                                     (''success'', JBool False)]) \<rparr>)"
proof -
  have a: "req_json numeric_prompt = Inr (JObj [(''prompt'', JNum 42)])"
    by (simp add: numeric_prompt_def)
  have b: "typeof (get (JObj [(''prompt'', JNum 42)]) (Name ''prompt'')) \<noteq> ''string''" by simp
  have m: "req_method numeric_prompt \<noteq> ''OPTIONS''" by (simp add: numeric_prompt_def)
  have f: "fst (serve (Some ''key'') (always (ok_json JNull)) numeric_prompt)
        = [ConsoleError [LStr ''Error in generate-image function:'',
                         LExn (Error ''Prompt is required and must be a string'')]]"
    using a m by (simp add: fst_serve try_block_invalid [where b = "JObj [(''prompt'', JNum 42)]"]
        nullish_def throw_def prompt_required_def)
  from invalid_prompt_no_fetch [OF a b, of "Some ''key''" "always (ok_json JNull)"] m
  have "snd (serve (Some ''key'') (always (ok_json JNull)) numeric_prompt)
     = \<lparr> reply_status = 500, reply_headers = json_headers,
            reply_body = Some (JObj [(''error'', JStr ''Prompt is required and must be a string''),
                                     (''success'', JBool False)]) \<rparr>"
    by (simp add: nullish_def)
  with f b show ?thesis by (simp add: prod_eq_iff)
qed

subsection \<open>C8\<close>

text \<open>
  Claim C8 as stated fails in its second half: the text is taken from the content whichever
  path found the image. A response with a populated images list and the content string
  \<^verbatim>\<open>Here is your image.\<close> has its image from the images list and that string, not the
  empty string, as \<^verbatim>\<open>textContent\<close>.
\<close>

theorem text_kept_beside_images_list:
  "yields (strategy1 images_and_text)
   \<and> reply_body (snd (serve (Some ''key'') (always (ok_json images_and_text)) red_circle))
       = Some (JObj [(''imageUrl'', JStr ''https://x/img.png''),
                     (''textContent'', JStr ''Here is your image.''),
                     (''success'', JBool True)])"
proof -
  have 1: "strategy1 images_and_text = Inr (JStr ''https://x/img.png'')"
    by (simp add: strategy1_def images_and_text_def eval_path)
  have t: "plain_text images_and_text = JStr ''Here is your image.''"
    by (simp add: plain_text_def content_of_def images_and_text_def eval_path)
  have "outcome images_and_text = Inr (success (JStr ''https://x/img.png'') (JStr ''Here is your image.''))"
    by (simp add: outcome_def 1 t)
  then show ?thesis by (simp add: serve_always_ok 1 yields_def success_def)
qed

text \<open>
  Claim C8, amended. For every successful call, \<^verbatim>\<open>textContent\<close> is the content of the first
  choice's message when that content is a plain string, whichever path found the image
  (the images list included), and the empty string whenever the content is not a string
  (a content list in particular).
\<close>

theorem textContent_from_string_content_only:
  assumes "answered k fetch req response" "response_ok response" "body_json response = Inr data"
    and "snd (serve (Some k) fetch req) = success imageUrl text"
  shows "(\<forall>s. content_of data = JStr s \<longrightarrow> text = JStr s)
       \<and> (typeof (content_of data) \<noteq> ''string'' \<longrightarrow> text = JStr [])"
proof -
  have "text = plain_text data"
  proof (cases "outcome data")
    case (Inl e)
    with serve_ok [OF assms(1-3)] assms(4) have "failure e = success imageUrl text" by simp
    then show ?thesis by simp
  next
    case (Inr r)
    then obtain v where "r = success v (plain_text data)"
      by (auto simp: outcome_def split: sum.splits if_splits)
    with Inr serve_ok [OF assms(1-3)] assms(4) show ?thesis by simp
  qed
  then show ?thesis
    by (cases "content_of data") (simp_all add: plain_text_def)
qed

text \<open>
  Witness for C8: an images list beside a content string, and a content list.
\<close>

theorem textContent_from_string_content_only_witness:
  "snd (serve (Some ''key'') (always (ok_json images_and_text)) red_circle)
     = success (JStr ''https://x/img.png'') (JStr ''Here is your image.'')
   \<and> content_of images_and_text = JStr ''Here is your image.''
   \<and> snd (serve (Some ''key'') (always (ok_json content_list)) red_circle)
     = success (JStr ''https://x/img.png'') (JStr [])
   \<and> typeof (content_of content_list) \<noteq> ''string''"
proof -
  have b: "response_ok (ok_json d)" "body_json (ok_json d) = Inr d" for d
    by (simp_all add: response_ok_def ok_json_def)
  have 1: "strategy1 images_and_text = Inr (JStr ''https://x/img.png'')"
    by (simp add: strategy1_def images_and_text_def eval_path)
  have c1: "content_of images_and_text = JStr ''Here is your image.''"
    by (simp add: content_of_def images_and_text_def eval_path)
  have o1: "snd (serve (Some ''key'') (always (ok_json images_and_text)) red_circle)
     = success (JStr ''https://x/img.png'') (plain_text images_and_text)"
    by (simp add: serve_always_ok outcome_def 1)
  have s1: "strategy1 content_list = Inr JUndefined"
    by (simp add: strategy1_def content_list_def eval_path)
  have s2: "strategy2 content_list = Inr JUndefined"
    by (simp add: strategy2_def content_list_def eval_path)
  have s3: "strategy3 content_list = Inr (JStr ''https://x/img.png'')"
    by (simp add: strategy3_def content_list_def eval_path)
  have c2: "typeof (content_of content_list) \<noteq> ''string''"
    by (simp add: content_of_def content_list_def eval_path)
  have o2: "snd (serve (Some ''key'') (always (ok_json content_list)) red_circle)
     = success (JStr ''https://x/img.png'') (plain_text content_list)"
    by (simp add: serve_always_ok outcome_def s1 s2 s3)
  from textContent_from_string_content_only [OF answered_always b o1]
       textContent_from_string_content_only [OF answered_always b o2]
       o1 o2 c1 c2
  show ?thesis by simp
qed

subsection \<open>C9\<close>

text \<open>
  Claim C9. A request whose prompt is the empty string is treated as one whose prompt is
  missing: the two runs are equal, neither makes an outbound call, and where the request
  is not a preflight and the credential is configured both end in the error envelope of
  the validation error (\<^verbatim>\<open>!prompt\<close> holds of the empty string).
\<close>

theorem empty_prompt_rejected_as_missing:
  assumes "req_json req = Inr b" "get b (Name ''prompt'') = JStr []"
    and "req_json req' = Inr b'" "\<not> nullish b'" "get b' (Name ''prompt'') = JUndefined"
    and "req_method req' = req_method req"
  shows "serve key fetch req = serve key fetch req'
       \<and> sent (fst (serve key fetch req)) = []
       \<and> (req_method req \<noteq> ''OPTIONS'' \<and> (\<exists>k. key = Some k \<and> k \<noteq> []) \<longrightarrow>
            serve key fetch req
              = ([ConsoleError [LStr ''Error in generate-image function:'',
                                LExn (Error ''Prompt is required and must be a string'')]],
                 \<lparr> reply_status = 500, reply_headers = json_headers,
                   reply_body = Some (JObj [(''error'', JStr ''Prompt is required and must be a string''),
                                            (''success'', JBool False)]) \<rparr>))"
proof -
  from assms(2) have nb: "\<not> nullish b" by (auto simp: nullish_def)
  have tb: "try_block key fetch req =
     (case key of None \<Rightarrow> throw (Error not_configured)
           | Some k \<Rightarrow> if k = [] then throw (Error not_configured) else throw (Error prompt_required))"
    using try_block_invalid [of req b key fetch] assms(1,2) nb by simp
  have tb': "try_block key fetch req' =
     (case key of None \<Rightarrow> throw (Error not_configured)
           | Some k \<Rightarrow> if k = [] then throw (Error not_configured) else throw (Error prompt_required))"
    using try_block_invalid [of req' b' key fetch] assms(3,4,5) by simp
  have 1: "serve key fetch req = serve key fetch req'"
    by (simp add: serve_def tb tb' assms(6))
  have 2: "sent (fst (serve key fetch req)) = []"
    by (simp add: sent_serve tb throw_def split: option.splits)
  have 3: "req_method req \<noteq> ''OPTIONS'' \<and> (\<exists>k. key = Some k \<and> k \<noteq> []) \<longrightarrow>
            serve key fetch req
              = ([ConsoleError [LStr ''Error in generate-image function:'',
                                LExn (Error ''Prompt is required and must be a string'')]],
                 \<lparr> reply_status = 500, reply_headers = json_headers,
                   reply_body = Some (JObj [(''error'', JStr ''Prompt is required and must be a string''),
                                            (''success'', JBool False)]) \<rparr>)"
    by (auto simp: serve_def tb throw_def failure_def prompt_required_def)
  from 1 2 3 show ?thesis by blast
qed

text \<open>
  Witness for C9: the bodies \<^verbatim>\<open>{prompt: ""}\<close> and \<^verbatim>\<open>{}\<close>.
\<close>

theorem empty_prompt_rejected_as_missing_witness:
  "get (JObj [(''prompt'', JStr [])]) (Name ''prompt'') = JStr []
   \<and> get (JObj []) (Name ''prompt'') = JUndefined
   \<and> serve (Some ''key'') (always (ok_json JNull)) empty_prompt
       = serve (Some ''key'') (always (ok_json JNull)) no_prompt
   \<and> serve (Some ''key'') (always (ok_json JNull)) empty_prompt
       = ([ConsoleError [LStr ''Error in generate-image function:'',
                         LExn (Error ''Prompt is required and must be a string'')]],
          \<lparr> reply_status = 500, reply_headers = json_headers,
            reply_body = Some (JObj [(''error'', JStr ''Prompt is required and must be a string''),
                                     (''success'', JBool False)]) \<rparr>)"
  using empty_prompt_rejected_as_missing [of empty_prompt "JObj [(''prompt'', JStr [])]"
          no_prompt "JObj []" "Some ''key''" "always (ok_json JNull)"]
  by (auto simp: empty_prompt_def no_prompt_def nullish_def)

subsection \<open>C10\<close>



end
